theory Spec2Isabelle
  imports Complex_Main
begin

section \<open>Data model (services/weather/weatherTypes.ts)\<close>

text \<open>
  JavaScript numbers that carry temperatures are modelled as rationals: the values come
  from JSON decimals, and the only arithmetic on them is a comparison, a multiplication by
  ten, \<open>Math.round\<close> and a division by ten. Epoch milliseconds (\<open>Date.now()\<close>) are
  integers. Strings are character lists; the degree sign is the single code unit 0xB0.
\<close>

record Current =
  temp_c :: rat
  temp_f :: rat
  last_updated :: string

record Location =
  name :: string
  region :: string
  country :: string

record ExternalWeatherAPIResponse =
  current :: Current
  location :: Location

record WeatherResponse =
  temperature :: rat
  unit :: string
  location :: string
  timestamp :: string
  status :: string

record CachedWeatherData =
  temperature :: rat
  unit :: string
  location :: string
  timestamp :: string
  cacheTime :: int

section \<open>The expiring cache (instances/cache, class SimpleCache)\<close>

record 'v CacheEntry =
  "value" :: 'v
  expiry :: int

record 'v SimpleCache =
  cache :: "string \<rightharpoonup> 'v CacheEntry"
  ttl :: int

text \<open>The constructor: an empty map, and the configured seconds turned into milliseconds.\<close>

definition SimpleCache_new :: "int \<Rightarrow> 'v SimpleCache" where
  "SimpleCache_new ttl_seconds = \<lparr>cache = Map.empty, ttl = ttl_seconds * 1000\<rparr>"

text \<open>
  A local variable or parameter whose name is also a field of one of the records carries a
  prime (\<open>location'\<close>, \<open>unit'\<close>, \<open>temperature'\<close>, \<open>timestamp'\<close>).
  Every method that reads \<open>Date.now()\<close> takes the value read as its first argument.
\<close>

definition SimpleCache_set :: "int \<Rightarrow> string \<Rightarrow> 'v \<Rightarrow> 'v SimpleCache \<Rightarrow> 'v SimpleCache" where
  "SimpleCache_set now key v c =
     (let expiry = now + ttl c
      in c\<lparr>cache := (cache c)(key \<mapsto> \<lparr>value = v, expiry = expiry\<rparr>)\<rparr>)"

definition SimpleCache_get :: "int \<Rightarrow> string \<Rightarrow> 'v SimpleCache \<Rightarrow> 'v option \<times> 'v SimpleCache" where
  "SimpleCache_get now key c =
     (case cache c key of
        None \<Rightarrow> (None, c)
      | Some entry \<Rightarrow>
          if now > expiry entry then (None, c\<lparr>cache := (cache c)(key := None)\<rparr>)
          else (Some (value entry), c))"

definition SimpleCache_delete :: "string \<Rightarrow> 'v SimpleCache \<Rightarrow> 'v SimpleCache" where
  "SimpleCache_delete key c = c\<lparr>cache := (cache c)(key := None)\<rparr>"

definition SimpleCache_clear :: "'v SimpleCache \<Rightarrow> 'v SimpleCache" where
  "SimpleCache_clear c = c\<lparr>cache := Map.empty\<rparr>"

text \<open>One run of the interval callback installed by \<open>startCleanup\<close>.\<close>

definition cleanup :: "int \<Rightarrow> 'v SimpleCache \<Rightarrow> 'v SimpleCache" where
  "cleanup now c =
     c\<lparr>cache := (\<lambda>key. case cache c key of
                          None \<Rightarrow> None
                        | Some entry \<Rightarrow> if now > expiry entry then None else Some entry)\<rparr>"

section \<open>Errors, configuration and the JavaScript environment\<close>

text \<open>
  A thrown value is an \<open>Error\<close> object: its message and its \<open>code\<close> property, which is
  absent on the errors the runtime itself throws. \<open>truthy\<close> is JavaScript's truth test on
  an optional string: \<open>undefined\<close> and the empty string are falsy.
\<close>

record js_error =
  message :: string
  code :: "string option"

definition truthy :: "string option \<Rightarrow> bool" where
  "truthy s = (case s of None \<Rightarrow> False | Some x \<Rightarrow> x \<noteq> [])"

definition new_Error :: "string \<Rightarrow> string \<Rightarrow> js_error" where
  "new_Error msg c = \<lparr>message = msg, code = Some c\<rparr>"

text \<open>
  The settings the code reads from the module \<open>@/config\<close> (\<open>config.weather.apiKey\<close>,
  \<open>config.weather.apiUrl\<close>, \<open>config.cache.ttl\<close>, \<open>config.cache.checkPeriod\<close>) are
  the fields of this record; every function that reads one takes the record as a parameter.
\<close>

record config =
  weather_apiKey :: "string option"
  weather_apiUrl :: string
  cache_ttl :: int
  cache_checkPeriod :: int

text \<open>
  What \<open>fetch(url)\<close> gives: the promise rejects with an error, or resolves to a response
  with a status code and a body; \<open>response.json()\<close> rejects (\<open>Inl\<close>) or yields a payload
  of the declared type \<open>ExternalWeatherAPIResponse\<close>.
\<close>

datatype Response = Response (status_code: nat) (json: "js_error + ExternalWeatherAPIResponse")

datatype fetch_result = Rejects js_error | Resolves Response

definition ok :: "Response \<Rightarrow> bool" where
  "ok response = (200 \<le> status_code response \<and> status_code response \<le> 299)"

text \<open>
  The built-ins the code calls: \<open>encodeURIComponent\<close> (\<open>None\<close>: it throws a URIError),
  \<open>fetch\<close>, and \<open>new Date(s).toISOString()\<close> (\<open>None\<close>: the date is invalid and
  \<open>toISOString\<close> throws a RangeError).
\<close>

record env =
  encodeURIComponent :: "string \<Rightarrow> string option"
  fetch :: "string \<Rightarrow> fetch_result"
  toISOString :: "string \<Rightarrow> string option"

definition URIError :: js_error where
  "URIError = \<lparr>message = ''URI malformed'', code = None\<rparr>"

definition RangeError :: js_error where
  "RangeError = \<lparr>message = ''Invalid time value'', code = None\<rparr>"

text \<open>
  The four places where one retrieval reads \<open>Date.now()\<close>, in program order: inside
  \<open>weatherCache.get\<close>, the \<open>now\<close> of \<open>weatherGet\<close>, the \<open>cacheTime\<close> of the record
  built after a fetch, and inside \<open>weatherCache.set\<close>.
\<close>

record clock =
  t_get :: int
  t_now :: int
  t_cacheTime :: int
  t_set :: int

text \<open>
  The state a retrieval works on: the module-level singleton \<open>weatherCache\<close>, and the log
  of the URLs handed to \<open>fetch\<close> so far.
\<close>

record world =
  weatherCache :: "CachedWeatherData SimpleCache"
  upstream_calls :: "string list"

definition initial_world :: "config \<Rightarrow> world" where
  "initial_world cfg = \<lparr>weatherCache = SimpleCache_new (cache_ttl cfg), upstream_calls = []\<rparr>"

section \<open>The rule engine (services/weather/weatherRules.ts)\<close>

definition degree :: string where
  "degree = [CHR 0xB0]"

text \<open>\<open>Math.round\<close>: the nearest integer, a tie going up.\<close>

definition Math_round :: "rat \<Rightarrow> int" where
  "Math_round x = \<lfloor>x + 1 / 2\<rfloor>"

definition cacheKey_of :: "string \<Rightarrow> string \<Rightarrow> string" where
  "cacheKey_of location' unit' = ''weather_'' @ location' @ ''_'' @ unit'"

text \<open>
  Lines 152 to 190 of \<open>fetchWeatherFromAPI\<close>: what it does with a decoded payload.
  \<open>Inl\<close> is the value thrown, before the \<open>catch\<close> clause looks at it.
\<close>

definition handle_payload ::
  "env \<Rightarrow> clock \<Rightarrow> string \<Rightarrow> string \<Rightarrow> ExternalWeatherAPIResponse \<Rightarrow> world \<Rightarrow>
   (js_error + WeatherResponse) \<times> world" where
  "handle_payload e clk location' unit' data w =
     (let temperature' = (if unit' = ''fahrenheit'' then temp_f (current data)
                          else temp_c (current data));
          unitSymbol = (if unit' = ''fahrenheit'' then degree @ ''F'' else degree @ ''C'');
          formattedLocation =
            name (ExternalWeatherAPIResponse.location data) @ '', '' @
            (if region (ExternalWeatherAPIResponse.location data) \<noteq> []
             then region (ExternalWeatherAPIResponse.location data)
             else country (ExternalWeatherAPIResponse.location data))
      in case toISOString e (last_updated (current data)) of
           None \<Rightarrow> (Inl RangeError, w)
         | Some timestamp' \<Rightarrow>
             if temperature' < - 90 \<or> temperature' > 60 then
               (Inl (new_Error ''temperatureOutOfRange'' ''VALIDATION_ERROR''), w)
             else
               let weatherResponse =
                     \<lparr>WeatherResponse.temperature = of_int (Math_round (temperature' * 10)) / 10,
                      unit = unitSymbol,
                      location = formattedLocation,
                      timestamp = timestamp',
                      status = ''online''\<rparr>;
                   cacheKey = cacheKey_of location' unit';
                   cacheData =
                     \<lparr>temperature = WeatherResponse.temperature weatherResponse,
                      unit = WeatherResponse.unit weatherResponse,
                      location = WeatherResponse.location weatherResponse,
                      timestamp = WeatherResponse.timestamp weatherResponse,
                      cacheTime = t_cacheTime clk\<rparr>
               in (Inr weatherResponse,
                   w\<lparr>weatherCache :=
                       SimpleCache_set (t_set clk) cacheKey cacheData (weatherCache w)\<rparr>))"

text \<open>The template literal of line 132, with the location already encoded.\<close>

definition request_url :: "string \<Rightarrow> string \<Rightarrow> string \<Rightarrow> string" where
  "request_url apiUrl apiKey q = apiUrl @ ''/current.json?key='' @ apiKey @ ''&q='' @ q @ ''&aqi=no''"

text \<open>
  The body of the \<open>try\<close> block of \<open>fetchWeatherFromAPI\<close> (lines 132 to 190), the
  request first and then the payload.
\<close>

definition fetch_try ::
  "env \<Rightarrow> clock \<Rightarrow> string \<Rightarrow> string \<Rightarrow> string \<Rightarrow> string \<Rightarrow> world \<Rightarrow>
   (js_error + WeatherResponse) \<times> world" where
  "fetch_try e clk apiUrl apiKey location' unit' w =
     (case encodeURIComponent e location' of
        None \<Rightarrow> (Inl URIError, w)
      | Some q \<Rightarrow>
          let url = request_url apiUrl apiKey q;
              w1 = w\<lparr>upstream_calls := upstream_calls w @ [url]\<rparr>
          in case fetch e url of
               Rejects err \<Rightarrow> (Inl err, w1)
             | Resolves response \<Rightarrow>
                 if \<not> ok response then
                   (if status_code response = 400
                    then (Inl (new_Error ''locationNotFound'' ''LOCATION_NOT_FOUND''), w1)
                    else (Inl (new_Error ''weatherApiRequestFailed'' ''WEATHER_API_ERROR''), w1))
                 else
                   (case json response of
                      Inl err \<Rightarrow> (Inl err, w1)
                    | Inr data \<Rightarrow> handle_payload e clk location' unit' data w1))"

definition fetchWeatherFromAPI ::
  "config \<Rightarrow> env \<Rightarrow> clock \<Rightarrow> string \<Rightarrow> string \<Rightarrow> world \<Rightarrow> (js_error + WeatherResponse) \<times> world" where
  "fetchWeatherFromAPI cfg e clk location' unit' w =
     (case weather_apiKey cfg of
        None \<Rightarrow> (Inl (new_Error ''weatherApiKeyNotConfigured'' ''WEATHER_API_ERROR''), w)
      | Some apiKey \<Rightarrow>
          if apiKey = [] then
            (Inl (new_Error ''weatherApiKeyNotConfigured'' ''WEATHER_API_ERROR''), w)
          else
            (case fetch_try e clk (weather_apiUrl cfg) apiKey location' unit' w of
               (Inr weatherResponse, w') \<Rightarrow> (Inr weatherResponse, w')
             | (Inl error, w') \<Rightarrow>
                 if truthy (code error) then (Inl error, w')
                 else (Inl (new_Error ''weatherApiRequestFailed'' ''WEATHER_API_ERROR''), w')))"

text \<open>The object literal that \<open>weatherGet\<close> builds from a cached record, three times over.\<close>

definition from_cache :: "CachedWeatherData \<Rightarrow> string \<Rightarrow> WeatherResponse" where
  "from_cache cachedData st =
     \<lparr>WeatherResponse.temperature = temperature cachedData,
      unit = unit cachedData,
      location = location cachedData,
      timestamp = timestamp cachedData,
      status = st\<rparr>"

text \<open>
  The fields \<open>location\<close> and \<open>unit\<close> of \<open>WeatherGetRequest\<close> carry the prefix
  \<open>req_\<close>, the plain names being fields of the reading.
\<close>

record WeatherGetRequest =
  req_location :: string
  req_unit :: string

definition weatherGet ::
  "config \<Rightarrow> env \<Rightarrow> clock \<Rightarrow> WeatherGetRequest \<Rightarrow> world \<Rightarrow> (js_error + WeatherResponse) \<times> world" where
  "weatherGet cfg e clk params w =
     (let location' = req_location params;
          unit' = req_unit params;
          cacheKey = cacheKey_of location' unit';
          (cachedData, c1) = SimpleCache_get (t_get clk) cacheKey (weatherCache w);
          w1 = w\<lparr>weatherCache := c1\<rparr>;
          now = t_now clk;
          fetch_or_offline =
            (case fetchWeatherFromAPI cfg e clk location' unit' w1 of
               (Inr weatherData, w2) \<Rightarrow> (Inr weatherData, w2)
             | (Inl error, w2) \<Rightarrow>
                 (case cachedData of
                    Some cached \<Rightarrow> (Inr (from_cache cached ''offline''), w2)
                  | None \<Rightarrow> (Inl error, w2)))
      in case cachedData of
           None \<Rightarrow> fetch_or_offline
         | Some cached \<Rightarrow>
             let cacheAge = now - cacheTime cached;
                 oneHour = 60 * 60 * 1000
             in if cacheAge < 15 * 60 * 1000 then (Inr (from_cache cached ''online''), w1)
                else if cacheAge > oneHour then
                  (case fetchWeatherFromAPI cfg e clk location' unit' w1 of
                     (Inr freshData, w2) \<Rightarrow> (Inr freshData, w2)
                   | (Inl error, w2) \<Rightarrow> (Inr (from_cache cached ''outdated''), w2))
                else fetch_or_offline)"

section \<open>The HTTP handler (api/v1/external/weather/controller.ts)\<close>

text \<open>
  A value of \<open>req.query\<close>: a string, an array or a nested object. An absent parameter is
  \<open>None\<close> in the request record.
\<close>

datatype query_value =
  QString string
| QArray "query_value list"
| QObject "(string \<times> query_value) list"

record Request =
  query_location :: "query_value option"
  query_unit :: "query_value option"

text \<open>
  The envelope helpers \<open>successResponse\<close> and \<open>errorResponse\<close> of \<open>@/utils/response\<close>
  are left uninterpreted: a body is the helper applied to the arguments the handler gives
  it (\<open>errorResponse message code\<close>).
\<close>

datatype body =
  successResponse WeatherResponse
| errorResponse string string

text \<open>
  What the handler does with \<open>res\<close> and \<open>next\<close>: a status and a JSON body (the status is
  200 where the handler sets none), or the error handed to \<open>next\<close>.
\<close>

datatype outcome =
  Responded nat body
| Next js_error

text \<open>
  The test \<open>!location || typeof location !== 'string'\<close> holds for an absent parameter,
  for an array or object, and for the empty string. Where \<open>weatherGet\<close> is called the
  unit has passed the second test, so the cast \<open>unit as string\<close> meets one of the two
  strings and the other branch of its \<open>case\<close> is never taken.
\<close>

definition getHandler ::
  "config \<Rightarrow> env \<Rightarrow> clock \<Rightarrow> Request \<Rightarrow> world \<Rightarrow> outcome \<times> world" where
  "getHandler cfg e clk req w =
     (let location' = query_location req;
          unit' = (case query_unit req of None \<Rightarrow> QString ''celsius'' | Some u \<Rightarrow> u)
      in case location' of
           None \<Rightarrow> (Responded 400 (errorResponse ''locationRequired'' ''VALIDATION_ERROR''), w)
         | Some (QArray xs) \<Rightarrow>
             (Responded 400 (errorResponse ''locationRequired'' ''VALIDATION_ERROR''), w)
         | Some (QObject kvs) \<Rightarrow>
             (Responded 400 (errorResponse ''locationRequired'' ''VALIDATION_ERROR''), w)
         | Some (QString l) \<Rightarrow>
             if l = [] then
               (Responded 400 (errorResponse ''locationRequired'' ''VALIDATION_ERROR''), w)
             else if unit' \<noteq> QString ''celsius'' \<and> unit' \<noteq> QString ''fahrenheit'' then
               (Responded 400 (errorResponse ''invalidUnit'' ''VALIDATION_ERROR''), w)
             else
               (case weatherGet cfg e clk
                       \<lparr>req_location = l,
                        req_unit = (case unit' of QString u \<Rightarrow> u | _ \<Rightarrow> [])\<rparr> w of
                  (Inr weatherData, w') \<Rightarrow> (Responded 200 (successResponse weatherData), w')
                | (Inl error, w') \<Rightarrow>
                    if code error = Some ''WEATHER_API_ERROR'' then
                      (Responded 503 (errorResponse (message error) ''EXTERNAL_API_ERROR''), w')
                    else if code error = Some ''LOCATION_NOT_FOUND'' then
                      (Responded 404 (errorResponse (message error) ''LOCATION_NOT_FOUND''), w')
                    else (Next error, w')))"

section \<open>Executions\<close>

text \<open>
  The worlds the service can be in: the one the process starts with, and those that a
  retrieval or a run of the cleanup callback leaves. The retrievals counted here read the
  clock once for the record's \<open>cacheTime\<close> and its expiry.
\<close>

inductive reachable :: "config \<Rightarrow> world \<Rightarrow> bool" for cfg :: config where
  start: "reachable cfg (initial_world cfg)"
| retrieval: "reachable cfg w \<Longrightarrow> t_cacheTime clk = t_set clk \<Longrightarrow>
     reachable cfg (snd (weatherGet cfg e clk params w))"
| sweep: "reachable cfg w \<Longrightarrow>
     reachable cfg (w\<lparr>weatherCache := cleanup now (weatherCache w)\<rparr>)"

section \<open>Notions used in the statements\<close>

text \<open>
  Names for three parts of one run of \<open>weatherGet\<close>: the \<open>cachedData\<close> that its call of
  \<open>weatherCache.get\<close> returns, the world that call leaves (an expired entry is gone), and
  the call of \<open>fetchWeatherFromAPI\<close> in that world.
\<close>

definition lookup :: "clock \<Rightarrow> WeatherGetRequest \<Rightarrow> world \<Rightarrow> CachedWeatherData option" where
  "lookup clk params w =
     fst (SimpleCache_get (t_get clk) (cacheKey_of (req_location params) (req_unit params))
            (weatherCache w))"

definition after_lookup :: "clock \<Rightarrow> WeatherGetRequest \<Rightarrow> world \<Rightarrow> world" where
  "after_lookup clk params w =
     w\<lparr>weatherCache :=
         snd (SimpleCache_get (t_get clk) (cacheKey_of (req_location params) (req_unit params))
                (weatherCache w))\<rparr>"

definition attempt ::
  "config \<Rightarrow> env \<Rightarrow> clock \<Rightarrow> WeatherGetRequest \<Rightarrow> world \<Rightarrow> (js_error + WeatherResponse) \<times> world" where
  "attempt cfg e clk params w =
     fetchWeatherFromAPI cfg e clk (req_location params) (req_unit params)
       (after_lookup clk params w)"

text \<open>The \<open>cacheData\<close> literal of \<open>fetchWeatherFromAPI\<close>, as a function of the reading.\<close>

definition to_cache :: "WeatherResponse \<Rightarrow> int \<Rightarrow> CachedWeatherData" where
  "to_cache r t =
     \<lparr>temperature = WeatherResponse.temperature r,
      unit = WeatherResponse.unit r,
      location = WeatherResponse.location r,
      timestamp = WeatherResponse.timestamp r,
      cacheTime = t\<rparr>"

text \<open>The test of line 50: the lookup found a reading younger than 15 minutes.\<close>

definition fresh_hit :: "clock \<Rightarrow> WeatherGetRequest \<Rightarrow> world \<Rightarrow> bool" where
  "fresh_hit clk params w =
     (case lookup clk params w of
        None \<Rightarrow> False
      | Some cached \<Rightarrow> t_now clk - cacheTime cached < 15 * 60 * 1000)"

section \<open>A running example\<close>

text \<open>
  Concrete inputs for evaluating the definitions: a configuration with a two-hour TTL, an
  upstream that answers with a given payload and one that is unreachable, a clock whose
  four reads coincide, and a world whose cache holds one reading stored at time 0.
\<close>

definition instant :: "int \<Rightarrow> clock" where
  "instant t = \<lparr>t_get = t, t_now = t, t_cacheTime = t, t_set = t\<rparr>"

definition demo_config :: config where
  "demo_config = \<lparr>weather_apiKey = Some ''secret'', weather_apiUrl = ''https://api.example'',
                   cache_ttl = 7200, cache_checkPeriod = 600\<rparr>"

definition demo_payload :: "rat \<Rightarrow> rat \<Rightarrow> ExternalWeatherAPIResponse" where
  "demo_payload c f =
     \<lparr>current = \<lparr>temp_c = c, temp_f = f, last_updated = ''2024-05-01 12:00''\<rparr>,
      ExternalWeatherAPIResponse.location =
        \<lparr>name = ''Lisbon'', region = ''Lisboa'', country = ''Portugal''\<rparr>\<rparr>"

definition env_up :: "ExternalWeatherAPIResponse \<Rightarrow> env" where
  "env_up data =
     \<lparr>encodeURIComponent = Some,
      fetch = (\<lambda>url. Resolves (Response 200 (Inr data))),
      toISOString = (\<lambda>s. Some ''2024-05-01T12:00:00.000Z'')\<rparr>"

definition env_down :: env where
  "env_down =
     \<lparr>encodeURIComponent = Some,
      fetch = (\<lambda>url. Rejects \<lparr>message = ''fetch failed'', code = None\<rparr>),
      toISOString = (\<lambda>s. Some ''2024-05-01T12:00:00.000Z'')\<rparr>"

definition lisbon :: WeatherGetRequest where
  "lisbon = \<lparr>req_location = ''Lisbon'', req_unit = ''celsius''\<rparr>"

definition demo_reading :: CachedWeatherData where
  "demo_reading =
     \<lparr>temperature = 213 / 10, unit = degree @ ''C'', location = ''Lisbon, Lisboa'',
      timestamp = ''2024-05-01T12:00:00.000Z'', cacheTime = 0\<rparr>"

definition demo_world :: world where
  "demo_world =
     \<lparr>weatherCache = SimpleCache_set 0 ''weather_Lisbon_celsius'' demo_reading (SimpleCache_new 7200),
      upstream_calls = []\<rparr>"

text \<open>An upstream that answers every request with a given status and an unreadable body.\<close>

definition env_status :: "nat \<Rightarrow> env" where
  "env_status n =
     \<lparr>encodeURIComponent = Some,
      fetch = (\<lambda>url. Resolves (Response n (Inl \<lparr>message = ''Unexpected token'', code = None\<rparr>))),
      toISOString = (\<lambda>s. None)\<rparr>"

text \<open>
  The conversion the specification has in mind when it speaks of a Fahrenheit value
  "in Celsius-equivalent terms"; the code has no such function.
\<close>

definition celsius_equivalent :: "rat \<Rightarrow> rat" where
  "celsius_equivalent f = (f - 32) * 5 / 9"

text \<open>
  The invariant of the reachable worlds: the cache has the configured TTL, and every entry
  expires exactly one TTL after the \<open>cacheTime\<close> of the reading it holds.
\<close>

definition cache_inv :: "config \<Rightarrow> world \<Rightarrow> bool" where
  "cache_inv cfg w =
     (ttl (weatherCache w) = cache_ttl cfg * 1000
      \<and> (\<forall>key entry. cache (weatherCache w) key = Some entry \<longrightarrow>
            expiry entry = cacheTime (value entry) + ttl (weatherCache w)))"

text \<open>The configuration of the running example with a TTL of 60 minutes.\<close>

definition hour_config :: config where
  "hour_config = \<lparr>weather_apiKey = Some ''secret'', weather_apiUrl = ''https://api.example'',
                   cache_ttl = 3600, cache_checkPeriod = 600\<rparr>"

section \<open>Properties of the cache\<close>

text \<open>
  C6. After \<open>set\<close> at time \<open>t\<close>, a \<open>get\<close> of the same key at time \<open>now\<close> returns exactly
  the stored value and leaves the cache as it is when \<open>now \<le> t + ttl\<close>; when
  \<open>now > t + ttl\<close> it returns absent and the entry is gone from the map. A \<open>get\<close> of a
  key the map does not hold returns absent and changes nothing.
\<close>

theorem SimpleCache_get_after_set:
  "(now \<le> t + ttl c \<longrightarrow>
      SimpleCache_get now key (SimpleCache_set t key v c) = (Some v, SimpleCache_set t key v c))
   \<and> (now > t + ttl c \<longrightarrow>
      fst (SimpleCache_get now key (SimpleCache_set t key v c)) = None
      \<and> cache (snd (SimpleCache_get now key (SimpleCache_set t key v c))) key = None)
   \<and> (cache c key = None \<longrightarrow> SimpleCache_get now key c = (None, c))"
  by (simp add: SimpleCache_get_def SimpleCache_set_def)

theorem SimpleCache_get_after_set_witness:
  "SimpleCache_get 1000 ''k'' (SimpleCache_set 0 ''k'' (7::int) (SimpleCache_new 3600)) =
     (Some 7, SimpleCache_set 0 ''k'' 7 (SimpleCache_new 3600))
   \<and> fst (SimpleCache_get 3600001 ''k'' (SimpleCache_set 0 ''k'' (7::int) (SimpleCache_new 3600))) = None
   \<and> cache (snd (SimpleCache_get 3600001 ''k''
         (SimpleCache_set 0 ''k'' (7::int) (SimpleCache_new 3600)))) ''k'' = None
   \<and> SimpleCache_get 1000 ''k'' (SimpleCache_new 3600 :: int SimpleCache) = (None, SimpleCache_new 3600)"
  using SimpleCache_get_after_set [of 1000 0 "SimpleCache_new 3600" "''k''" "7::int"]
        SimpleCache_get_after_set [of 3600001 0 "SimpleCache_new 3600" "''k''" "7::int"]
  by (simp add: SimpleCache_new_def)

section \<open>The branches of a retrieval\<close>

lemma lookup_Some_unchanged:
  "lookup clk params w = Some cached \<Longrightarrow> after_lookup clk params w = w"
  by (auto simp: lookup_def after_lookup_def SimpleCache_get_def split: option.splits if_splits)

lemma weatherGet_absent:
  "lookup clk params w = None \<Longrightarrow> weatherGet cfg e clk params w = attempt cfg e clk params w"
  by (auto simp: weatherGet_def lookup_def after_lookup_def attempt_def Let_def
           split: prod.splits sum.splits option.splits)

lemma weatherGet_fresh:
  "lookup clk params w = Some cached \<Longrightarrow> t_now clk - cacheTime cached < 15 * 60 * 1000 \<Longrightarrow>
   weatherGet cfg e clk params w = (Inr (from_cache cached ''online''), w)"
  using lookup_Some_unchanged[of clk params w cached]
  by (auto simp: weatherGet_def lookup_def after_lookup_def Let_def
           split: prod.splits sum.splits option.splits)

lemma weatherGet_stale:
  "lookup clk params w = Some cached \<Longrightarrow> t_now clk - cacheTime cached > 60 * 60 * 1000 \<Longrightarrow>
   fst (weatherGet cfg e clk params w) =
     (case fst (attempt cfg e clk params w) of
        Inr freshData \<Rightarrow> Inr freshData
      | Inl error \<Rightarrow> Inr (from_cache cached ''outdated''))
   \<and> snd (weatherGet cfg e clk params w) = snd (attempt cfg e clk params w)"
  by (auto simp: weatherGet_def lookup_def after_lookup_def attempt_def Let_def
           split: prod.splits sum.splits option.splits)

lemma weatherGet_aging:
  "lookup clk params w = Some cached \<Longrightarrow> 15 * 60 * 1000 \<le> t_now clk - cacheTime cached \<Longrightarrow>
   t_now clk - cacheTime cached \<le> 60 * 60 * 1000 \<Longrightarrow>
   fst (weatherGet cfg e clk params w) =
     (case fst (attempt cfg e clk params w) of
        Inr weatherData \<Rightarrow> Inr weatherData
      | Inl error \<Rightarrow> Inr (from_cache cached ''offline''))
   \<and> snd (weatherGet cfg e clk params w) = snd (attempt cfg e clk params w)"
  by (auto simp: weatherGet_def lookup_def after_lookup_def attempt_def Let_def
           split: prod.splits sum.splits option.splits)

section \<open>What a fetch does to the cache\<close>

lemma handle_payload_cases:
  "(\<exists>err. handle_payload e clk l u data w = (Inl err, w)) \<or>
   (\<exists>r. handle_payload e clk l u data w =
      (Inr r, w\<lparr>weatherCache := SimpleCache_set (t_set clk) (cacheKey_of l u)
                     (to_cache r (t_cacheTime clk)) (weatherCache w)\<rparr>))"
  by (simp add: handle_payload_def Let_def to_cache_def split: option.splits)

lemma handle_payload_world:
  "fst (handle_payload e clk l u data w) = fst (handle_payload e clk l u data w')"
  by (simp add: handle_payload_def Let_def split: option.splits)

lemma fetch_try_cases:
  "(\<exists>err w'. fetch_try e clk apiUrl apiKey l u w = (Inl err, w') \<and> weatherCache w' = weatherCache w) \<or>
   (\<exists>r w'. fetch_try e clk apiUrl apiKey l u w = (Inr r, w') \<and>
      weatherCache w' = SimpleCache_set (t_set clk) (cacheKey_of l u)
                     (to_cache r (t_cacheTime clk)) (weatherCache w))"
proof (cases "encodeURIComponent e l")
  case None
  then show ?thesis by (simp add: fetch_try_def Let_def)
next
  case (Some q)
  let ?url = "request_url apiUrl apiKey q"
  let ?w1 = "w\<lparr>upstream_calls := upstream_calls w @ [?url]\<rparr>"
  show ?thesis
  proof (cases "fetch e ?url")
    case (Rejects err)
    with Some show ?thesis by (simp add: fetch_try_def Let_def)
  next
    case (Resolves response)
    show ?thesis
    proof (cases "ok response")
      case False
      with Some Resolves show ?thesis by (simp add: fetch_try_def Let_def)
    next
      case True
      show ?thesis
      proof (cases "json response")
        case (Inl err)
        with Some Resolves True show ?thesis by (simp add: fetch_try_def Let_def)
      next
        case (Inr data)
        with Some Resolves True
        have eq: "fetch_try e clk apiUrl apiKey l u w = handle_payload e clk l u data ?w1"
          by (simp add: fetch_try_def Let_def)
        from handle_payload_cases[of e clk l u data ?w1] show ?thesis
          unfolding eq by auto
      qed
    qed
  qed
qed

lemma fetch_try_world:
  "fst (fetch_try e clk apiUrl apiKey l u w) = fst (fetch_try e clk apiUrl apiKey l u w')"
  using handle_payload_world
  by (simp add: fetch_try_def Let_def split: option.splits fetch_result.splits sum.splits)

lemma fetch_cases:
  "(\<exists>err w'. fetchWeatherFromAPI cfg e clk l u w = (Inl err, w') \<and> weatherCache w' = weatherCache w) \<or>
   (\<exists>r w'. fetchWeatherFromAPI cfg e clk l u w = (Inr r, w') \<and>
      weatherCache w' = SimpleCache_set (t_set clk) (cacheKey_of l u)
                     (to_cache r (t_cacheTime clk)) (weatherCache w))"
proof (cases "weather_apiKey cfg")
  case None
  then show ?thesis by (simp add: fetchWeatherFromAPI_def)
next
  case (Some apiKey)
  show ?thesis
  proof (cases "apiKey = []")
    case True
    with Some show ?thesis by (simp add: fetchWeatherFromAPI_def)
  next
    case False
    from fetch_try_cases[of e clk "weather_apiUrl cfg" apiKey l u w]
    show ?thesis using Some False
      by (auto simp: fetchWeatherFromAPI_def)
  qed
qed

lemma fetch_fst:
  "fst (fetchWeatherFromAPI cfg e clk l u w) =
     (case weather_apiKey cfg of
        None \<Rightarrow> Inl (new_Error ''weatherApiKeyNotConfigured'' ''WEATHER_API_ERROR'')
      | Some apiKey \<Rightarrow>
          if apiKey = [] then Inl (new_Error ''weatherApiKeyNotConfigured'' ''WEATHER_API_ERROR'')
          else (case fst (fetch_try e clk (weather_apiUrl cfg) apiKey l u w) of
                  Inr r \<Rightarrow> Inr r
                | Inl error \<Rightarrow>
                    if truthy (code error) then Inl error
                    else Inl (new_Error ''weatherApiRequestFailed'' ''WEATHER_API_ERROR'')))"
  by (simp add: fetchWeatherFromAPI_def split: option.splits prod.splits sum.splits)

lemma fetch_result_world:
  "fst (fetchWeatherFromAPI cfg e clk l u w) = fst (fetchWeatherFromAPI cfg e clk l u w')"
proof (cases "weather_apiKey cfg")
  case None
  then show ?thesis by (simp add: fetch_fst)
next
  case (Some apiKey)
  then show ?thesis
    using fetch_try_world[of e clk "weather_apiUrl cfg" apiKey l u w w']
    by (simp add: fetch_fst)
qed

lemma fetch_failure_cache:
  "fst (fetchWeatherFromAPI cfg e clk l u w) = Inl err \<Longrightarrow>
   weatherCache (snd (fetchWeatherFromAPI cfg e clk l u w)) = weatherCache w"
  using fetch_cases[of cfg e clk l u w] by auto

lemma fetch_success_cache:
  "fst (fetchWeatherFromAPI cfg e clk l u w) = Inr r \<Longrightarrow>
   weatherCache (snd (fetchWeatherFromAPI cfg e clk l u w)) =
     SimpleCache_set (t_set clk) (cacheKey_of l u) (to_cache r (t_cacheTime clk)) (weatherCache w)"
  using fetch_cases[of cfg e clk l u w] by auto

section \<open>The running example, evaluated\<close>

lemmas demo_defs = instant_def demo_config_def demo_payload_def env_up_def env_down_def lisbon_def
  demo_reading_def demo_world_def

lemma demo_lookup:
  "t \<le> 7200000 \<Longrightarrow> lookup (instant t) lisbon demo_world = Some demo_reading"
  by (simp add: lookup_def demo_defs SimpleCache_get_def SimpleCache_set_def SimpleCache_new_def
        cacheKey_of_def)

lemma demo_down:
  "fst (attempt demo_config env_down clk lisbon w) =
     Inl (new_Error ''weatherApiRequestFailed'' ''WEATHER_API_ERROR'')"
  by (simp add: attempt_def fetch_fst fetch_try_def demo_defs Let_def truthy_def)

section \<open>Serving from the cache\<close>

text \<open>
  C3. When the lookup of \<open>weatherGet\<close> returns a cached reading whose age
  \<open>now - cacheTime\<close> is below 15 minutes, the result is that reading's temperature,
  unit, location and timestamp with status \<open>online\<close>. The configuration and the
  environment (so the upstream too) do not occur in the result, the world is returned as
  it was, and the log of upstream calls has not grown.
\<close>

theorem weatherGet_fresh_hit:
  "lookup clk params w = Some cached \<Longrightarrow> t_now clk - cacheTime cached < 15 * 60 * 1000 \<Longrightarrow>
   weatherGet cfg e clk params w =
     (Inr \<lparr>WeatherResponse.temperature = temperature cached, unit = unit cached,
           location = location cached, timestamp = timestamp cached, status = ''online''\<rparr>, w)
   \<and> upstream_calls (snd (weatherGet cfg e clk params w)) = upstream_calls w"
  by (simp add: weatherGet_fresh from_cache_def)

theorem weatherGet_fresh_hit_witness:
  "lookup (instant 600000) lisbon demo_world = Some demo_reading
   \<and> t_now (instant 600000) - cacheTime demo_reading < 15 * 60 * 1000
   \<and> weatherGet demo_config env_down (instant 600000) lisbon demo_world =
       (Inr \<lparr>WeatherResponse.temperature = 213 / 10, unit = degree @ ''C'',
             location = ''Lisbon, Lisboa'', timestamp = ''2024-05-01T12:00:00.000Z'',
             status = ''online''\<rparr>, demo_world)"
proof -
  have h1: "lookup (instant 600000) lisbon demo_world = Some demo_reading"
    by (simp add: demo_lookup)
  have h2: "t_now (instant 600000) - cacheTime demo_reading < 15 * 60 * 1000"
    by (simp add: instant_def demo_reading_def)
  from weatherGet_fresh_hit [OF h1 h2, of demo_config env_down] h1 h2
  show ?thesis by (simp add: demo_reading_def)
qed

text \<open>
  C4. When the lookup returns a cached reading older than 60 minutes and the fetch fails,
  with whatever error, \<open>weatherGet\<close> returns the cached reading's fields with status
  \<open>outdated\<close>; the error is not propagated.
\<close>

theorem weatherGet_stale_fallback:
  "lookup clk params w = Some cached \<Longrightarrow> t_now clk - cacheTime cached > 60 * 60 * 1000 \<Longrightarrow>
   fst (attempt cfg e clk params w) = Inl err \<Longrightarrow>
   fst (weatherGet cfg e clk params w) =
     Inr \<lparr>WeatherResponse.temperature = temperature cached, unit = unit cached,
          location = location cached, timestamp = timestamp cached, status = ''outdated''\<rparr>"
  by (simp add: weatherGet_stale from_cache_def)

theorem weatherGet_stale_fallback_witness:
  "lookup (instant 4200000) lisbon demo_world = Some demo_reading
   \<and> t_now (instant 4200000) - cacheTime demo_reading > 60 * 60 * 1000
   \<and> fst (attempt demo_config env_down (instant 4200000) lisbon demo_world) =
       Inl (new_Error ''weatherApiRequestFailed'' ''WEATHER_API_ERROR'')
   \<and> fst (weatherGet demo_config env_down (instant 4200000) lisbon demo_world) =
       Inr \<lparr>WeatherResponse.temperature = 213 / 10, unit = degree @ ''C'',
            location = ''Lisbon, Lisboa'', timestamp = ''2024-05-01T12:00:00.000Z'',
            status = ''outdated''\<rparr>"
proof -
  have h1: "lookup (instant 4200000) lisbon demo_world = Some demo_reading"
    by (simp add: demo_lookup)
  have h2: "t_now (instant 4200000) - cacheTime demo_reading > 60 * 60 * 1000"
    by (simp add: instant_def demo_reading_def)
  have h3: "fst (attempt demo_config env_down (instant 4200000) lisbon demo_world) =
       Inl (new_Error ''weatherApiRequestFailed'' ''WEATHER_API_ERROR'')"
    by (rule demo_down)
  from weatherGet_stale_fallback [OF h1 h2 h3] h1 h2 h3
  show ?thesis by (simp add: demo_reading_def)
qed

section \<open>Falling back when the fetch fails\<close>

lemma fetch_upstream_failure:
  assumes key: "weather_apiKey cfg = Some apiKey" "apiKey \<noteq> []"
    and enc: "encodeURIComponent e l = Some q"
    and down: "(\<exists>err0. fetch e (request_url (weather_apiUrl cfg) apiKey q) = Rejects err0
                  \<and> \<not> truthy (code err0))
               \<or> (\<exists>response. fetch e (request_url (weather_apiUrl cfg) apiKey q) = Resolves response
                  \<and> \<not> ok response \<and> status_code response \<noteq> 400)"
  shows "fst (fetchWeatherFromAPI cfg e clk l u w) =
           Inl (new_Error ''weatherApiRequestFailed'' ''WEATHER_API_ERROR'')"
  using down
proof
  assume "\<exists>err0. fetch e (request_url (weather_apiUrl cfg) apiKey q) = Rejects err0
                  \<and> \<not> truthy (code err0)"
  then show ?thesis using key enc
    by (auto simp: fetch_fst fetch_try_def Let_def)
next
  assume "\<exists>response. fetch e (request_url (weather_apiUrl cfg) apiKey q) = Resolves response
                  \<and> \<not> ok response \<and> status_code response \<noteq> 400"
  then show ?thesis using key enc
    by (auto simp: fetch_fst fetch_try_def Let_def new_Error_def truthy_def)
qed

lemma weatherGet_error_only_absent:
  assumes "fst (weatherGet cfg e clk params w) = Inl x"
  shows "lookup clk params w = None \<and> fst (attempt cfg e clk params w) = Inl x"
proof (cases "lookup clk params w")
  case None
  with assms show ?thesis by (simp add: weatherGet_absent)
next
  case (Some cached)
  consider "t_now clk - cacheTime cached < 15 * 60 * 1000"
    | "t_now clk - cacheTime cached > 60 * 60 * 1000"
    | "15 * 60 * 1000 \<le> t_now clk - cacheTime cached" "t_now clk - cacheTime cached \<le> 60 * 60 * 1000"
    by linarith
  then have False
  proof cases
    case 1
    with Some assms show False by (simp add: weatherGet_fresh)
  next
    case 2
    with Some assms show False by (simp add: weatherGet_stale split: sum.splits)
  next
    case 3
    with Some assms show False by (simp add: weatherGet_aging split: sum.splits)
  qed
  then show ?thesis ..
qed

lemma lookup_None_after:
  "lookup clk params w = None \<Longrightarrow>
   cache (weatherCache (after_lookup clk params w))
     (cacheKey_of (req_location params) (req_unit params)) = None"
  by (auto simp: lookup_def after_lookup_def SimpleCache_get_def split: option.splits if_splits)

text \<open>
  C5. In the branch where the lookup finds nothing, or finds a reading aged between 15 and
  60 minutes, a failing fetch makes \<open>weatherGet\<close> return the cached reading with status
  \<open>offline\<close> if there is one, and fail with the error of the fetch if there is none.
  When the upstream itself fails (the request is rejected, or answered with a status
  outside 200..299 other than 400) that error is \<open>weatherApiRequestFailed\<close> with code
  \<open>WEATHER_API_ERROR\<close>. In every branch, an error leaves \<open>weatherGet\<close> only when the
  lookup found nothing, and the cache then holds no entry for the key.
\<close>

theorem weatherGet_offline_or_propagate:
  "(fst (attempt cfg e clk params w) = Inl err \<longrightarrow>
      (lookup clk params w = None \<longrightarrow> fst (weatherGet cfg e clk params w) = Inl err)
      \<and> (\<forall>cached. lookup clk params w = Some cached
            \<and> 15 * 60 * 1000 \<le> t_now clk - cacheTime cached
            \<and> t_now clk - cacheTime cached \<le> 60 * 60 * 1000 \<longrightarrow>
          fst (weatherGet cfg e clk params w) =
            Inr \<lparr>WeatherResponse.temperature = temperature cached, unit = unit cached,
                 location = location cached, timestamp = timestamp cached,
                 status = ''offline''\<rparr>))
   \<and> (lookup clk params w = None \<and> weather_apiKey cfg = Some apiKey \<and> apiKey \<noteq> []
        \<and> encodeURIComponent e (req_location params) = Some q
        \<and> ((\<exists>err0. fetch e (request_url (weather_apiUrl cfg) apiKey q) = Rejects err0
                \<and> \<not> truthy (code err0))
           \<or> (\<exists>response. fetch e (request_url (weather_apiUrl cfg) apiKey q) = Resolves response
                \<and> \<not> ok response \<and> status_code response \<noteq> 400)) \<longrightarrow>
      fst (weatherGet cfg e clk params w) =
        Inl (new_Error ''weatherApiRequestFailed'' ''WEATHER_API_ERROR''))
   \<and> (fst (weatherGet cfg e clk params w) = Inl x \<longrightarrow>
        lookup clk params w = None
        \<and> fst (attempt cfg e clk params w) = Inl x
        \<and> cache (weatherCache (snd (weatherGet cfg e clk params w)))
            (cacheKey_of (req_location params) (req_unit params)) = None)"
proof (intro conjI impI allI)
  assume "fst (attempt cfg e clk params w) = Inl err" "lookup clk params w = None"
  then show "fst (weatherGet cfg e clk params w) = Inl err"
    by (simp add: weatherGet_absent)
next
  fix cached
  assume "fst (attempt cfg e clk params w) = Inl err"
    and "lookup clk params w = Some cached
            \<and> 15 * 60 * 1000 \<le> t_now clk - cacheTime cached
            \<and> t_now clk - cacheTime cached \<le> 60 * 60 * 1000"
  then show "fst (weatherGet cfg e clk params w) =
            Inr \<lparr>WeatherResponse.temperature = temperature cached, unit = unit cached,
                 location = location cached, timestamp = timestamp cached,
                 status = ''offline''\<rparr>"
    by (simp add: weatherGet_aging from_cache_def)
next
  assume h: "lookup clk params w = None \<and> weather_apiKey cfg = Some apiKey \<and> apiKey \<noteq> []
        \<and> encodeURIComponent e (req_location params) = Some q
        \<and> ((\<exists>err0. fetch e (request_url (weather_apiUrl cfg) apiKey q) = Rejects err0
                \<and> \<not> truthy (code err0))
           \<or> (\<exists>response. fetch e (request_url (weather_apiUrl cfg) apiKey q) = Resolves response
                \<and> \<not> ok response \<and> status_code response \<noteq> 400))"
  then have "fst (attempt cfg e clk params w) =
        Inl (new_Error ''weatherApiRequestFailed'' ''WEATHER_API_ERROR'')"
    unfolding attempt_def by (intro fetch_upstream_failure[of cfg apiKey e _ q]) simp_all
  with h show "fst (weatherGet cfg e clk params w) =
        Inl (new_Error ''weatherApiRequestFailed'' ''WEATHER_API_ERROR'')"
    by (simp add: weatherGet_absent)
next
  assume a: "fst (weatherGet cfg e clk params w) = Inl x"
  from weatherGet_error_only_absent[OF a]
  show "lookup clk params w = None" by simp
next
  assume a: "fst (weatherGet cfg e clk params w) = Inl x"
  from weatherGet_error_only_absent[OF a]
  show "fst (attempt cfg e clk params w) = Inl x" by simp
next
  assume a: "fst (weatherGet cfg e clk params w) = Inl x"
  from weatherGet_error_only_absent[OF a]
  have n: "lookup clk params w = None" and f: "fst (attempt cfg e clk params w) = Inl x"
    by simp_all
  have "weatherCache (snd (weatherGet cfg e clk params w)) =
        weatherCache (after_lookup clk params w)"
    using n f fetch_failure_cache[of cfg e clk "req_location params" "req_unit params"
        "after_lookup clk params w" x]
    by (simp add: weatherGet_absent attempt_def)
  then show "cache (weatherCache (snd (weatherGet cfg e clk params w)))
            (cacheKey_of (req_location params) (req_unit params)) = None"
    using lookup_None_after[OF n] by simp
qed

lemma demo_lookup_initial:
  "lookup clk lisbon (initial_world demo_config) = None"
  by (simp add: lookup_def initial_world_def SimpleCache_new_def SimpleCache_get_def)

lemma demo_status_500:
  "fetch (env_status 500) url = Resolves (Response 500 (Inl \<lparr>message = ''Unexpected token'', code = None\<rparr>))
   \<and> \<not> ok (Response 500 (Inl \<lparr>message = ''Unexpected token'', code = None\<rparr>))
   \<and> status_code (Response 500 (Inl \<lparr>message = ''Unexpected token'', code = None\<rparr>)) \<noteq> 400"
  by (simp add: env_status_def ok_def)

theorem weatherGet_offline_or_propagate_witness:
  "lookup (instant 5) lisbon (initial_world demo_config) = None
   \<and> fst (attempt demo_config env_down (instant 5) lisbon (initial_world demo_config)) =
       Inl (new_Error ''weatherApiRequestFailed'' ''WEATHER_API_ERROR'')
   \<and> fst (weatherGet demo_config env_down (instant 5) lisbon (initial_world demo_config)) =
       Inl (new_Error ''weatherApiRequestFailed'' ''WEATHER_API_ERROR'')
   \<and> cache (weatherCache (snd (weatherGet demo_config env_down (instant 5) lisbon
         (initial_world demo_config)))) (cacheKey_of (req_location lisbon) (req_unit lisbon)) = None
   \<and> fst (weatherGet demo_config (env_status 500) (instant 5) lisbon (initial_world demo_config)) =
       Inl (new_Error ''weatherApiRequestFailed'' ''WEATHER_API_ERROR'')
   \<and> lookup (instant 1200000) lisbon demo_world = Some demo_reading
   \<and> fst (weatherGet demo_config env_down (instant 1200000) lisbon demo_world) =
       Inr \<lparr>WeatherResponse.temperature = 213 / 10, unit = degree @ ''C'',
            location = ''Lisbon, Lisboa'', timestamp = ''2024-05-01T12:00:00.000Z'',
            status = ''offline''\<rparr>"
proof -
  let ?E = "new_Error ''weatherApiRequestFailed'' ''WEATHER_API_ERROR''"
  let ?w0 = "initial_world demo_config"
  have n: "lookup (instant 5) lisbon ?w0 = None"
    by (rule demo_lookup_initial)
  have f: "fst (attempt demo_config env_down (instant 5) lisbon ?w0) = Inl ?E"
    by (rule demo_down)
  have r1: "fst (weatherGet demo_config env_down (instant 5) lisbon ?w0) = Inl ?E"
    using weatherGet_offline_or_propagate
      [where cfg = demo_config and e = env_down and clk = "instant 5" and params = lisbon
         and w = ?w0 and err = ?E and x = ?E and apiKey = "''secret''" and q = "''Lisbon''"] n f
    by simp
  have r2: "cache (weatherCache (snd (weatherGet demo_config env_down (instant 5) lisbon ?w0)))
              (cacheKey_of (req_location lisbon) (req_unit lisbon)) = None"
    using weatherGet_offline_or_propagate
      [where cfg = demo_config and e = env_down and clk = "instant 5" and params = lisbon
         and w = ?w0 and err = ?E and x = ?E and apiKey = "''secret''" and q = "''Lisbon''"] r1
    by simp
  have k: "weather_apiKey demo_config = Some ''secret'' \<and> ''secret'' \<noteq> []
           \<and> encodeURIComponent (env_status 500) (req_location lisbon) = Some ''Lisbon''"
    by (simp add: demo_config_def env_status_def lisbon_def)
  have r3: "fst (weatherGet demo_config (env_status 500) (instant 5) lisbon ?w0) = Inl ?E"
    using weatherGet_offline_or_propagate
      [where cfg = demo_config and e = "env_status 500" and clk = "instant 5"
         and params = lisbon and w = ?w0 and apiKey = "''secret''" and q = "''Lisbon''"
         and err = ?E and x = ?E]
      n k demo_status_500 [of "request_url (weather_apiUrl demo_config) ''secret'' ''Lisbon''"]
    by blast
  have s: "lookup (instant 1200000) lisbon demo_world = Some demo_reading"
    by (simp add: demo_lookup)
  have age: "15 * 60 * 1000 \<le> t_now (instant 1200000) - cacheTime demo_reading
             \<and> t_now (instant 1200000) - cacheTime demo_reading \<le> 60 * 60 * 1000"
    by (simp add: instant_def demo_reading_def)
  have f': "fst (attempt demo_config env_down (instant 1200000) lisbon demo_world) = Inl ?E"
    by (rule demo_down)
  have r4: "fst (weatherGet demo_config env_down (instant 1200000) lisbon demo_world) =
       Inr \<lparr>WeatherResponse.temperature = temperature demo_reading, unit = unit demo_reading,
            location = location demo_reading, timestamp = timestamp demo_reading,
            status = ''offline''\<rparr>"
    using weatherGet_offline_or_propagate
      [where cfg = demo_config and e = env_down and clk = "instant 1200000" and params = lisbon
         and w = demo_world and err = ?E and x = ?E and apiKey = "''secret''"
         and q = "''Lisbon''"] s age f'
    by blast
  from n f r1 r2 r3 s r4 show ?thesis by (simp add: demo_reading_def)
qed

section \<open>The reading built from a payload\<close>

lemma Math_round_near: "\<bar>of_int (Math_round (x * 10)) / 10 - x\<bar> \<le> 1 / 20"
proof -
  define n :: rat where "n = of_int \<lfloor>x * 10 + 1 / 2\<rfloor>"
  have lo: "n \<le> x * 10 + 1 / 2"
    unfolding n_def by linarith
  have hi: "x * 10 + 1 / 2 < n + 1"
    unfolding n_def by linarith
  have "\<bar>n / 10 - x\<bar> \<le> 1 / 20"
    using lo hi by linarith
  then show ?thesis
    by (simp add: Math_round_def n_def)
qed

lemma fetch_with_payload:
  assumes "weather_apiKey cfg = Some apiKey" "apiKey \<noteq> []"
    and "encodeURIComponent e l = Some q"
    and "fetch e (request_url (weather_apiUrl cfg) apiKey q) = Resolves response"
    and "ok response" and "json response = Inr data"
  shows "fst (fetchWeatherFromAPI cfg e clk l u w) =
     (case fst (handle_payload e clk l u data w) of
        Inr r \<Rightarrow> Inr r
      | Inl error \<Rightarrow>
          if truthy (code error) then Inl error
          else Inl (new_Error ''weatherApiRequestFailed'' ''WEATHER_API_ERROR''))"
  using assms
    handle_payload_world [of e clk l u data
      "w\<lparr>upstream_calls := upstream_calls w @ [request_url (weather_apiUrl cfg) apiKey q]\<rparr>" w]
  by (simp add: fetch_fst fetch_try_def Let_def)

lemma handle_payload_result:
  "fst (handle_payload e clk l u data w) =
     (case toISOString e (last_updated (current data)) of
        None \<Rightarrow> Inl RangeError
      | Some ts \<Rightarrow>
          if (if u = ''fahrenheit'' then temp_f (current data) else temp_c (current data)) < - 90
             \<or> (if u = ''fahrenheit'' then temp_f (current data) else temp_c (current data)) > 60
          then Inl (new_Error ''temperatureOutOfRange'' ''VALIDATION_ERROR'')
          else Inr \<lparr>WeatherResponse.temperature =
                      of_int (Math_round
                        ((if u = ''fahrenheit'' then temp_f (current data)
                          else temp_c (current data)) * 10)) / 10,
                    unit = (if u = ''fahrenheit'' then degree @ ''F'' else degree @ ''C''),
                    location =
                      name (ExternalWeatherAPIResponse.location data) @ '', '' @
                      (if region (ExternalWeatherAPIResponse.location data) \<noteq> []
                       then region (ExternalWeatherAPIResponse.location data)
                       else country (ExternalWeatherAPIResponse.location data)),
                    timestamp = ts,
                    status = ''online''\<rparr>)"
  by (simp add: handle_payload_def Let_def split: option.splits)

text \<open>
  C7. When the upstream answers with a payload and the fetch succeeds, the reading returned
  has: as temperature the payload's \<open>temp_f\<close> for unit \<open>fahrenheit\<close> and its \<open>temp_c\<close>
  for any other unit, times ten, rounded by \<open>Math.round\<close>, divided by ten (so within 0.05
  of the field); as unit the degree sign followed by F for \<open>fahrenheit\<close> and by C
  otherwise; as location the name, a comma and a blank, and the region, or the country
  when the region is empty; as timestamp the ISO form of \<open>last_updated\<close>; and status
  \<open>online\<close>.
\<close>

theorem fetch_success_reading:
  assumes "weather_apiKey cfg = Some apiKey"
    and "encodeURIComponent e l = Some q"
    and "fetch e (request_url (weather_apiUrl cfg) apiKey q) = Resolves response"
    and "json response = Inr data"
    and "fst (fetchWeatherFromAPI cfg e clk l u w) = Inr r"
  shows "WeatherResponse.temperature r =
           of_int \<lfloor>(if u = ''fahrenheit'' then temp_f (current data)
                     else temp_c (current data)) * 10 + 1 / 2\<rfloor> / 10
       \<and> \<bar>WeatherResponse.temperature r -
            (if u = ''fahrenheit'' then temp_f (current data) else temp_c (current data))\<bar>
           \<le> 1 / 20
       \<and> WeatherResponse.unit r = (if u = ''fahrenheit'' then degree @ ''F'' else degree @ ''C'')
       \<and> WeatherResponse.location r =
            name (ExternalWeatherAPIResponse.location data) @ '', '' @
            (if region (ExternalWeatherAPIResponse.location data) = []
             then country (ExternalWeatherAPIResponse.location data)
             else region (ExternalWeatherAPIResponse.location data))
       \<and> toISOString e (last_updated (current data)) = Some (WeatherResponse.timestamp r)
       \<and> status r = ''online''"
proof -
  let ?t = "if u = ''fahrenheit'' then temp_f (current data) else temp_c (current data)"
  from assms have key: "apiKey \<noteq> []"
    by (auto simp: fetch_fst)
  from assms have okr: "ok response"
    by (auto simp: fetch_fst fetch_try_def Let_def new_Error_def truthy_def key
             split: if_splits)
  from fetch_with_payload [OF assms(1) key assms(2) assms(3) okr assms(4), of clk u w] assms(5)
  have "fst (handle_payload e clk l u data w) = Inr r"
    by (auto split: sum.splits if_splits)
  then obtain ts where ts: "toISOString e (last_updated (current data)) = Some ts"
    and r: "r = \<lparr>WeatherResponse.temperature = of_int (Math_round (?t * 10)) / 10,
                 unit = (if u = ''fahrenheit'' then degree @ ''F'' else degree @ ''C''),
                 location =
                   name (ExternalWeatherAPIResponse.location data) @ '', '' @
                   (if region (ExternalWeatherAPIResponse.location data) \<noteq> []
                    then region (ExternalWeatherAPIResponse.location data)
                    else country (ExternalWeatherAPIResponse.location data)),
                 timestamp = ts, status = ''online''\<rparr>"
    by (auto simp: handle_payload_result split: option.splits if_splits)
  have near: "\<bar>of_int (Math_round (?t * 10)) / 10 - ?t\<bar> \<le> 1 / 20"
    by (rule Math_round_near)
  show ?thesis
    using near by (simp add: r ts Math_round_def)
qed

lemma demo_up_facts:
  "weather_apiKey demo_config = Some ''secret'' \<and> ''secret'' \<noteq> []
   \<and> encodeURIComponent (env_up data) (req_location lisbon) = Some ''Lisbon''
   \<and> encodeURIComponent (env_up data) ''Lisbon'' = Some ''Lisbon''
   \<and> fetch (env_up data) (request_url (weather_apiUrl demo_config) ''secret'' ''Lisbon'') =
       Resolves (Response 200 (Inr data))
   \<and> ok (Response 200 (Inr data))
   \<and> json (Response 200 (Inr data)) = Inr data
   \<and> toISOString (env_up data) (last_updated (current data)) = Some ''2024-05-01T12:00:00.000Z''"
  by (simp add: demo_config_def env_up_def lisbon_def ok_def)

lemma Math_round_demo: "Math_round (1067 / 5) = 213"
  unfolding Math_round_def by simp linarith

lemma demo_up_celsius:
  "fst (fetchWeatherFromAPI demo_config (env_up (demo_payload (2134 / 100) (704 / 10))) clk
          ''Lisbon'' ''celsius'' w) =
     Inr \<lparr>WeatherResponse.temperature = 213 / 10, unit = degree @ ''C'',
          location = ''Lisbon, Lisboa'', timestamp = ''2024-05-01T12:00:00.000Z'',
          status = ''online''\<rparr>"
proof -
  let ?data = "demo_payload (2134 / 100) (704 / 10)"
  have f: "weather_apiKey demo_config = Some ''secret''" "''secret'' \<noteq> []"
    "encodeURIComponent (env_up ?data) ''Lisbon'' = Some ''Lisbon''"
    "fetch (env_up ?data) (request_url (weather_apiUrl demo_config) ''secret'' ''Lisbon'') =
       Resolves (Response 200 (Inr ?data))"
    "ok (Response 200 (Inr ?data))" "json (Response 200 (Inr ?data)) = Inr ?data"
    using demo_up_facts [of ?data] by simp_all
  have ts: "toISOString (env_up ?data) (last_updated (current ?data)) =
              Some ''2024-05-01T12:00:00.000Z''"
    using demo_up_facts [of ?data] by simp
  have t: "temp_c (current ?data) = 2134 / 100"
    and l: "name (ExternalWeatherAPIResponse.location ?data) = ''Lisbon''"
      "region (ExternalWeatherAPIResponse.location ?data) = ''Lisboa''"
    by (simp_all add: demo_payload_def)
  show ?thesis
    unfolding fetch_with_payload [OF f] handle_payload_result ts t l
    by (simp add: Math_round_demo)
qed

theorem fetch_success_reading_witness:
  "fst (fetchWeatherFromAPI demo_config (env_up (demo_payload (2134 / 100) (704 / 10)))
          (instant 0) ''Lisbon'' ''celsius'' (initial_world demo_config)) =
     Inr \<lparr>WeatherResponse.temperature = 213 / 10, unit = degree @ ''C'',
          location = ''Lisbon, Lisboa'', timestamp = ''2024-05-01T12:00:00.000Z'',
          status = ''online''\<rparr>
   \<and> temp_c (current (demo_payload (2134 / 100) (704 / 10))) = 2134 / 100
   \<and> (213 / 10 :: rat) = of_int \<lfloor>(2134 / 100 :: rat) * 10 + 1 / 2\<rfloor> / 10
   \<and> \<bar>(213 / 10 :: rat) - 2134 / 100\<bar> \<le> 1 / 20"
proof -
  let ?data = "demo_payload (2134 / 100) (704 / 10)"
  let ?r = "\<lparr>WeatherResponse.temperature = 213 / 10, unit = degree @ ''C'',
          location = ''Lisbon, Lisboa'', timestamp = ''2024-05-01T12:00:00.000Z'',
          status = ''online''\<rparr>"
  have h1: "weather_apiKey demo_config = Some ''secret''"
    and h2: "encodeURIComponent (env_up ?data) ''Lisbon'' = Some ''Lisbon''"
    and h3: "fetch (env_up ?data) (request_url (weather_apiUrl demo_config) ''secret'' ''Lisbon'') =
       Resolves (Response 200 (Inr ?data))"
    and h4: "json (Response 200 (Inr ?data)) = Inr ?data"
    using demo_up_facts [of ?data] by simp_all
  have h5: "fst (fetchWeatherFromAPI demo_config (env_up ?data) (instant 0) ''Lisbon'' ''celsius''
              (initial_world demo_config)) = Inr ?r"
    by (rule demo_up_celsius)
  from fetch_success_reading [OF h1 h2 h3 h4 h5] h5
  show ?thesis by (simp add: demo_payload_def)
qed

section \<open>The range check\<close>

lemma fetch_out_of_range:
  assumes "weather_apiKey cfg = Some apiKey" "apiKey \<noteq> []"
    and "encodeURIComponent e l = Some q"
    and "fetch e (request_url (weather_apiUrl cfg) apiKey q) = Resolves response"
    and "ok response" and "json response = Inr data"
    and "toISOString e (last_updated (current data)) = Some ts"
  shows "fst (fetchWeatherFromAPI cfg e clk l u w) =
           Inl (new_Error ''temperatureOutOfRange'' ''VALIDATION_ERROR'')
         \<longleftrightarrow> (if u = ''fahrenheit'' then temp_f (current data) else temp_c (current data)) < - 90
             \<or> (if u = ''fahrenheit'' then temp_f (current data) else temp_c (current data)) > 60"
  using assms(7)
  by (simp add: fetch_with_payload [OF assms(1-6)] handle_payload_result new_Error_def
        truthy_def)

text \<open>
  C1. For a request in Fahrenheit the code compares the Fahrenheit value itself with -90
  and 60. A payload with \<open>temp_f = 70.4\<close>, whose Celsius equivalent 21.33... lies well
  inside the range, is rejected with \<open>temperatureOutOfRange\<close>.
\<close>

theorem fetch_fahrenheit_70_rejected:
  "fst (fetchWeatherFromAPI demo_config (env_up (demo_payload (2134 / 100) (704 / 10)))
          (instant 0) ''Lisbon'' ''fahrenheit'' (initial_world demo_config)) =
     Inl (new_Error ''temperatureOutOfRange'' ''VALIDATION_ERROR'')
   \<and> - 90 \<le> celsius_equivalent (704 / 10) \<and> celsius_equivalent (704 / 10) \<le> 60"
proof -
  let ?data = "demo_payload (2134 / 100) (704 / 10)"
  have f: "weather_apiKey demo_config = Some ''secret''" "''secret'' \<noteq> []"
    "encodeURIComponent (env_up ?data) ''Lisbon'' = Some ''Lisbon''"
    "fetch (env_up ?data) (request_url (weather_apiUrl demo_config) ''secret'' ''Lisbon'') =
       Resolves (Response 200 (Inr ?data))"
    "ok (Response 200 (Inr ?data))" "json (Response 200 (Inr ?data)) = Inr ?data"
    "toISOString (env_up ?data) (last_updated (current ?data)) =
       Some ''2024-05-01T12:00:00.000Z''"
    using demo_up_facts [of ?data] by simp_all
  have t: "temp_f (current ?data) = 704 / 10"
    by (simp add: demo_payload_def)
  have "fst (fetchWeatherFromAPI demo_config (env_up ?data) (instant 0) ''Lisbon''
          ''fahrenheit'' (initial_world demo_config)) =
     Inl (new_Error ''temperatureOutOfRange'' ''VALIDATION_ERROR'')"
    unfolding fetch_out_of_range [OF f] t by simp
  then show ?thesis
    by (simp add: celsius_equivalent_def)
qed

section \<open>A temperature of 65 from the upstream\<close>

lemma demo_up_65:
  "fst (fetchWeatherFromAPI demo_config (env_up (demo_payload 65 149)) clk ''Lisbon'' ''celsius'' w) =
     Inl (new_Error ''temperatureOutOfRange'' ''VALIDATION_ERROR'')"
proof -
  let ?data = "demo_payload 65 149"
  have f: "weather_apiKey demo_config = Some ''secret''" "''secret'' \<noteq> []"
    "encodeURIComponent (env_up ?data) ''Lisbon'' = Some ''Lisbon''"
    "fetch (env_up ?data) (request_url (weather_apiUrl demo_config) ''secret'' ''Lisbon'') =
       Resolves (Response 200 (Inr ?data))"
    "ok (Response 200 (Inr ?data))" "json (Response 200 (Inr ?data)) = Inr ?data"
    "toISOString (env_up ?data) (last_updated (current ?data)) =
       Some ''2024-05-01T12:00:00.000Z''"
    using demo_up_facts [of ?data] by simp_all
  have t: "temp_c (current ?data) = 65"
    by (simp add: demo_payload_def)
  show ?thesis
    unfolding fetch_out_of_range [OF f] t by simp
qed

text \<open>
  C2, as stated, fails: with a reading cached 20 minutes ago, a temperature of 65 for a
  Celsius request makes the fetch throw the validation error, and \<open>weatherGet\<close> answers
  with the cached reading and status \<open>offline\<close>.
\<close>

theorem weatherGet_65_absorbed:
  "fst (attempt demo_config (env_up (demo_payload 65 149)) (instant 1200000) lisbon demo_world) =
     Inl (new_Error ''temperatureOutOfRange'' ''VALIDATION_ERROR'')
   \<and> fst (weatherGet demo_config (env_up (demo_payload 65 149)) (instant 1200000) lisbon
          demo_world) =
     Inr \<lparr>WeatherResponse.temperature = 213 / 10, unit = degree @ ''C'',
          location = ''Lisbon, Lisboa'', timestamp = ''2024-05-01T12:00:00.000Z'',
          status = ''offline''\<rparr>"
proof -
  have a: "fst (attempt demo_config (env_up (demo_payload 65 149)) (instant 1200000) lisbon
             demo_world) = Inl (new_Error ''temperatureOutOfRange'' ''VALIDATION_ERROR'')"
    unfolding attempt_def using demo_up_65 by (simp add: lisbon_def)
  have s: "lookup (instant 1200000) lisbon demo_world = Some demo_reading"
    by (simp add: demo_lookup)
  have age: "15 * 60 * 1000 \<le> t_now (instant 1200000) - cacheTime demo_reading"
    "t_now (instant 1200000) - cacheTime demo_reading \<le> 60 * 60 * 1000"
    by (simp_all add: instant_def demo_reading_def)
  from weatherGet_aging [OF s age, of demo_config "env_up (demo_payload 65 149)"] a
  show ?thesis
    by (simp add: from_cache_def demo_reading_def)
qed

text \<open>
  C2, amended. When the upstream answers a Celsius request with a well-formed payload whose
  \<open>temp_c\<close> is 65, \<open>weatherGet\<close> fails with the validation error exactly when its lookup
  finds no reading (the key is absent, or its entry has expired). When the lookup finds a
  reading, that reading is returned: with status \<open>offline\<close> at an age of 15 to 60 minutes,
  \<open>outdated\<close> beyond 60 minutes, and \<open>online\<close>, without a fetch, below 15 minutes.
\<close>

theorem weatherGet_65:
  assumes "weather_apiKey cfg = Some apiKey" "apiKey \<noteq> []"
    and "encodeURIComponent e (req_location params) = Some q"
    and "fetch e (request_url (weather_apiUrl cfg) apiKey q) = Resolves response"
    and "ok response" and "json response = Inr data"
    and "toISOString e (last_updated (current data)) = Some ts"
    and "req_unit params = ''celsius''" and "temp_c (current data) = 65"
  shows "fst (weatherGet cfg e clk params w) =
     (case lookup clk params w of
        None \<Rightarrow> Inl (new_Error ''temperatureOutOfRange'' ''VALIDATION_ERROR'')
      | Some cached \<Rightarrow>
          Inr (from_cache cached
                 (if t_now clk - cacheTime cached < 15 * 60 * 1000 then ''online''
                  else if t_now clk - cacheTime cached > 60 * 60 * 1000 then ''outdated''
                  else ''offline'')))"
proof -
  have a: "fst (attempt cfg e clk params w) =
             Inl (new_Error ''temperatureOutOfRange'' ''VALIDATION_ERROR'')"
    unfolding attempt_def fetch_out_of_range [OF assms(1-7)]
    by (simp add: assms(8,9))
  show ?thesis
  proof (cases "lookup clk params w")
    case None
    with a show ?thesis by (simp add: weatherGet_absent)
  next
    case (Some cached)
    consider "t_now clk - cacheTime cached < 15 * 60 * 1000"
      | "t_now clk - cacheTime cached > 60 * 60 * 1000"
      | "15 * 60 * 1000 \<le> t_now clk - cacheTime cached"
        "t_now clk - cacheTime cached \<le> 60 * 60 * 1000"
      by linarith
    then show ?thesis
    proof cases
      case 1
      with Some show ?thesis by (simp add: weatherGet_fresh)
    next
      case 2
      with Some a show ?thesis by (simp add: weatherGet_stale)
    next
      case 3
      with Some a show ?thesis by (simp add: weatherGet_aging)
    qed
  qed
qed

theorem weatherGet_65_witness:
  "fst (weatherGet demo_config (env_up (demo_payload 65 149)) (instant 5) lisbon
          (initial_world demo_config)) =
     Inl (new_Error ''temperatureOutOfRange'' ''VALIDATION_ERROR'')
   \<and> fst (weatherGet demo_config (env_up (demo_payload 65 149)) (instant 4200000) lisbon
          demo_world) = Inr (from_cache demo_reading ''outdated'')"
proof -
  let ?data = "demo_payload 65 149"
  have f: "weather_apiKey demo_config = Some ''secret''" "''secret'' \<noteq> []"
    "encodeURIComponent (env_up ?data) (req_location lisbon) = Some ''Lisbon''"
    "fetch (env_up ?data) (request_url (weather_apiUrl demo_config) ''secret'' ''Lisbon'') =
       Resolves (Response 200 (Inr ?data))"
    "ok (Response 200 (Inr ?data))" "json (Response 200 (Inr ?data)) = Inr ?data"
    "toISOString (env_up ?data) (last_updated (current ?data)) =
       Some ''2024-05-01T12:00:00.000Z''"
    using demo_up_facts [of ?data] by simp_all
  have u: "req_unit lisbon = ''celsius''" and t: "temp_c (current ?data) = 65"
    by (simp_all add: lisbon_def demo_payload_def)
  have n: "lookup (instant 5) lisbon (initial_world demo_config) = None"
    by (rule demo_lookup_initial)
  have s: "lookup (instant 4200000) lisbon demo_world = Some demo_reading"
    by (simp add: demo_lookup)
  have age: "t_now (instant 4200000) - cacheTime demo_reading = 4200000"
    by (simp add: instant_def demo_reading_def)
  from weatherGet_65 [OF f u t, of "instant 5" "initial_world demo_config"]
       weatherGet_65 [OF f u t, of "instant 4200000" demo_world]
  show ?thesis
    by (simp add: n s age)
qed

section \<open>Writes to the cache\<close>

lemma after_lookup_cache:
  "weatherCache (after_lookup clk params w) = weatherCache w
   \<or> (\<exists>entry. cache (weatherCache w) (cacheKey_of (req_location params) (req_unit params)) =
                  Some entry
        \<and> t_get clk > expiry entry
        \<and> weatherCache (after_lookup clk params w) =
            SimpleCache_delete (cacheKey_of (req_location params) (req_unit params))
              (weatherCache w))"
  by (auto simp: after_lookup_def SimpleCache_get_def SimpleCache_delete_def
           split: option.splits)

lemma weatherGet_not_fresh:
  assumes "\<not> fresh_hit clk params w"
  shows "fst (weatherGet cfg e clk params w) =
           (case fst (attempt cfg e clk params w) of
              Inr r \<Rightarrow> Inr r
            | Inl error \<Rightarrow>
                (case lookup clk params w of
                   None \<Rightarrow> Inl error
                 | Some cached \<Rightarrow>
                     Inr (from_cache cached
                            (if t_now clk - cacheTime cached > 60 * 60 * 1000
                             then ''outdated'' else ''offline''))))
         \<and> snd (weatherGet cfg e clk params w) = snd (attempt cfg e clk params w)"
proof (cases "lookup clk params w")
  case None
  then show ?thesis
    by (simp add: weatherGet_absent split: sum.splits)
next
  case (Some cached)
  with assms have old: "15 * 60 * 1000 \<le> t_now clk - cacheTime cached"
    by (simp add: fresh_hit_def)
  show ?thesis
  proof (cases "t_now clk - cacheTime cached > 60 * 60 * 1000")
    case True
    from weatherGet_stale [OF Some True, of cfg e] show ?thesis
      using Some True by (simp split: sum.splits)
  next
    case False
    then have "t_now clk - cacheTime cached \<le> 60 * 60 * 1000" by simp
    from weatherGet_aging [OF Some old this, of cfg e] show ?thesis
      using Some False by (simp split: sum.splits)
  qed
qed

text \<open>
  C8. What one run of \<open>weatherGet\<close> does to the cache. On a fresh hit the world is
  returned as it was. Otherwise the lookup has at most deleted the expired entry of the
  key; then a failed fetch leaves the cache as the lookup left it, and a successful fetch
  returns its reading and stores it under the key of the request, with \<open>cacheTime\<close> the
  clock read at line 186 and expiry the clock read of \<open>set\<close> plus the TTL, every other
  key keeping its entry.
\<close>

theorem weatherGet_cache_writes:
  "(fresh_hit clk params w \<longrightarrow> snd (weatherGet cfg e clk params w) = w)
   \<and> (\<not> fresh_hit clk params w \<and> fst (attempt cfg e clk params w) = Inl err \<longrightarrow>
        weatherCache (snd (weatherGet cfg e clk params w)) =
          weatherCache (after_lookup clk params w))
   \<and> (\<not> fresh_hit clk params w \<and> fst (attempt cfg e clk params w) = Inr r \<longrightarrow>
        fst (weatherGet cfg e clk params w) = Inr r
        \<and> weatherCache (snd (weatherGet cfg e clk params w)) =
            SimpleCache_set (t_set clk) (cacheKey_of (req_location params) (req_unit params))
              \<lparr>temperature = WeatherResponse.temperature r, unit = WeatherResponse.unit r,
               location = WeatherResponse.location r,
               timestamp = WeatherResponse.timestamp r, cacheTime = t_cacheTime clk\<rparr>
              (weatherCache (after_lookup clk params w))
        \<and> cache (weatherCache (snd (weatherGet cfg e clk params w)))
            (cacheKey_of (req_location params) (req_unit params)) =
            Some \<lparr>value = \<lparr>temperature = WeatherResponse.temperature r,
                             unit = WeatherResponse.unit r,
                             location = WeatherResponse.location r,
                             timestamp = WeatherResponse.timestamp r,
                             cacheTime = t_cacheTime clk\<rparr>,
                  expiry = t_set clk + ttl (weatherCache w)\<rparr>
        \<and> (\<forall>key. key \<noteq> cacheKey_of (req_location params) (req_unit params) \<longrightarrow>
              cache (weatherCache (snd (weatherGet cfg e clk params w))) key =
              cache (weatherCache w) key))
   \<and> (weatherCache (after_lookup clk params w) = weatherCache w
      \<or> (\<exists>entry. cache (weatherCache w) (cacheKey_of (req_location params) (req_unit params)) =
                    Some entry
           \<and> t_get clk > expiry entry
           \<and> weatherCache (after_lookup clk params w) =
               SimpleCache_delete (cacheKey_of (req_location params) (req_unit params))
                 (weatherCache w)))"
proof (intro conjI impI)
  assume "fresh_hit clk params w"
  then show "snd (weatherGet cfg e clk params w) = w"
    by (auto simp: fresh_hit_def weatherGet_fresh split: option.splits)
next
  assume h: "\<not> fresh_hit clk params w \<and> fst (attempt cfg e clk params w) = Inl err"
  then show "weatherCache (snd (weatherGet cfg e clk params w)) =
          weatherCache (after_lookup clk params w)"
    using fetch_failure_cache [of cfg e clk "req_location params" "req_unit params"
        "after_lookup clk params w" err]
    by (simp add: weatherGet_not_fresh attempt_def)
next
  assume h: "\<not> fresh_hit clk params w \<and> fst (attempt cfg e clk params w) = Inr r"
  then show "fst (weatherGet cfg e clk params w) = Inr r"
    by (simp add: weatherGet_not_fresh)
  from h have w: "weatherCache (snd (weatherGet cfg e clk params w)) =
            SimpleCache_set (t_set clk) (cacheKey_of (req_location params) (req_unit params))
              (to_cache r (t_cacheTime clk)) (weatherCache (after_lookup clk params w))"
    using fetch_success_cache [of cfg e clk "req_location params" "req_unit params"
        "after_lookup clk params w" r]
    by (simp add: weatherGet_not_fresh attempt_def)
  then show "weatherCache (snd (weatherGet cfg e clk params w)) =
            SimpleCache_set (t_set clk) (cacheKey_of (req_location params) (req_unit params))
              \<lparr>temperature = WeatherResponse.temperature r, unit = WeatherResponse.unit r,
               location = WeatherResponse.location r,
               timestamp = WeatherResponse.timestamp r, cacheTime = t_cacheTime clk\<rparr>
              (weatherCache (after_lookup clk params w))"
    by (simp add: to_cache_def)
  have t: "ttl (weatherCache (after_lookup clk params w)) = ttl (weatherCache w)"
    using after_lookup_cache [of clk params w] by (auto simp: SimpleCache_delete_def)
  show "cache (weatherCache (snd (weatherGet cfg e clk params w)))
            (cacheKey_of (req_location params) (req_unit params)) =
            Some \<lparr>value = \<lparr>temperature = WeatherResponse.temperature r,
                             unit = WeatherResponse.unit r,
                             location = WeatherResponse.location r,
                             timestamp = WeatherResponse.timestamp r,
                             cacheTime = t_cacheTime clk\<rparr>,
                  expiry = t_set clk + ttl (weatherCache w)\<rparr>"
    by (simp add: w SimpleCache_set_def to_cache_def t)
  show "\<forall>key. key \<noteq> cacheKey_of (req_location params) (req_unit params) \<longrightarrow>
              cache (weatherCache (snd (weatherGet cfg e clk params w))) key =
              cache (weatherCache w) key"
    using after_lookup_cache [of clk params w]
    by (auto simp: w SimpleCache_set_def SimpleCache_delete_def)
next
  show "weatherCache (after_lookup clk params w) = weatherCache w
      \<or> (\<exists>entry. cache (weatherCache w) (cacheKey_of (req_location params) (req_unit params)) =
                    Some entry
           \<and> t_get clk > expiry entry
           \<and> weatherCache (after_lookup clk params w) =
               SimpleCache_delete (cacheKey_of (req_location params) (req_unit params))
                 (weatherCache w))"
    by (rule after_lookup_cache)
qed

lemma demo_fresh_hit:
  "t \<le> 7200000 \<Longrightarrow> fresh_hit (instant t) lisbon demo_world \<longleftrightarrow> t < 900000"
  by (simp add: fresh_hit_def demo_lookup) (simp add: instant_def demo_reading_def)

lemma demo_not_fresh_initial: "\<not> fresh_hit clk lisbon (initial_world demo_config)"
  by (simp add: fresh_hit_def demo_lookup_initial)

theorem weatherGet_cache_writes_witness:
  "fresh_hit (instant 600000) lisbon demo_world
   \<and> snd (weatherGet demo_config env_down (instant 600000) lisbon demo_world) = demo_world
   \<and> \<not> fresh_hit (instant 1200000) lisbon demo_world
   \<and> fst (attempt demo_config env_down (instant 1200000) lisbon demo_world) =
        Inl (new_Error ''weatherApiRequestFailed'' ''WEATHER_API_ERROR'')
   \<and> weatherCache (snd (weatherGet demo_config env_down (instant 1200000) lisbon demo_world)) =
        weatherCache (after_lookup (instant 1200000) lisbon demo_world)
   \<and> \<not> fresh_hit (instant 5) lisbon (initial_world demo_config)
   \<and> cache (weatherCache (snd (weatherGet demo_config
         (env_up (demo_payload (2134 / 100) (704 / 10))) (instant 5) lisbon
         (initial_world demo_config)))) ''weather_Lisbon_celsius'' =
        Some \<lparr>value = \<lparr>temperature = 213 / 10, unit = degree @ ''C'',
                         location = ''Lisbon, Lisboa'',
                         timestamp = ''2024-05-01T12:00:00.000Z'', cacheTime = 5\<rparr>,
              expiry = 7200005\<rparr>"
proof -
  let ?E = "new_Error ''weatherApiRequestFailed'' ''WEATHER_API_ERROR''"
  let ?up = "env_up (demo_payload (2134 / 100) (704 / 10))"
  let ?r = "\<lparr>WeatherResponse.temperature = 213 / 10, unit = degree @ ''C'',
          location = ''Lisbon, Lisboa'', timestamp = ''2024-05-01T12:00:00.000Z'',
          status = ''online''\<rparr>"
  have a: "fresh_hit (instant 600000) lisbon demo_world"
    by (simp add: demo_fresh_hit)
  have b: "\<not> fresh_hit (instant 1200000) lisbon demo_world"
    by (simp add: demo_fresh_hit)
  have c: "fst (attempt demo_config env_down (instant 1200000) lisbon demo_world) = Inl ?E"
    by (rule demo_down)
  have d: "\<not> fresh_hit (instant 5) lisbon (initial_world demo_config)"
    by (rule demo_not_fresh_initial)
  have f: "fst (attempt demo_config ?up (instant 5) lisbon (initial_world demo_config)) = Inr ?r"
    unfolding attempt_def using demo_up_celsius by (simp add: lisbon_def)
  have r1: "snd (weatherGet demo_config env_down (instant 600000) lisbon demo_world) = demo_world"
    using weatherGet_cache_writes
      [where clk = "instant 600000" and params = lisbon and w = demo_world
         and cfg = demo_config and e = env_down and err = ?E and r = ?r] a
    by blast
  have r2: "weatherCache (snd (weatherGet demo_config env_down (instant 1200000) lisbon
              demo_world)) = weatherCache (after_lookup (instant 1200000) lisbon demo_world)"
    using weatherGet_cache_writes
      [where clk = "instant 1200000" and params = lisbon and w = demo_world
         and cfg = demo_config and e = env_down and err = ?E and r = ?r] b c
    by blast
  have r3: "cache (weatherCache (snd (weatherGet demo_config ?up (instant 5) lisbon
              (initial_world demo_config))))
              (cacheKey_of (req_location lisbon) (req_unit lisbon)) =
            Some \<lparr>value = \<lparr>temperature = WeatherResponse.temperature ?r,
                             unit = WeatherResponse.unit ?r,
                             location = WeatherResponse.location ?r,
                             timestamp = WeatherResponse.timestamp ?r,
                             cacheTime = t_cacheTime (instant 5)\<rparr>,
                  expiry = t_set (instant 5) + ttl (weatherCache (initial_world demo_config))\<rparr>"
    using weatherGet_cache_writes
      [where clk = "instant 5" and params = lisbon and w = "initial_world demo_config"
         and cfg = demo_config and e = ?up and err = ?E and r = ?r] d f
    by blast
  have k: "cacheKey_of (req_location lisbon) (req_unit lisbon) = ''weather_Lisbon_celsius''"
    by (simp add: cacheKey_of_def lisbon_def)
  have t: "t_cacheTime (instant 5) = 5" "t_set (instant 5) = 5"
    "ttl (weatherCache (initial_world demo_config)) = 7200000"
    by (simp_all add: instant_def initial_world_def SimpleCache_new_def demo_config_def)
  from a b c d r1 r2 r3 show ?thesis
    unfolding k t by simp
qed

section \<open>The handler\<close>

text \<open>
  C9. A request whose \<open>location\<close> is absent, not a string, or the empty string is answered
  400 with \<open>errorResponse locationRequired VALIDATION_ERROR\<close>. With a non-empty string
  location, a \<open>unit\<close> that is present and neither the string \<open>celsius\<close> nor the string
  \<open>fahrenheit\<close> is answered 400 with \<open>invalidUnit\<close>. Both answers leave the world as it
  was and depend neither on the upstream nor on the clock. Otherwise the handler runs
  \<open>weatherGet\<close>, with unit \<open>celsius\<close> when none was given: a reading is answered 200
  in the success envelope, an error with code \<open>WEATHER_API_ERROR\<close> 503 with
  \<open>EXTERNAL_API_ERROR\<close>, and one with code \<open>LOCATION_NOT_FOUND\<close> 404 with
  \<open>LOCATION_NOT_FOUND\<close>, each with the error's message.
\<close>

theorem getHandler_responses:
  "((\<forall>l. query_location req \<noteq> Some (QString l)) \<or> query_location req = Some (QString []) \<longrightarrow>
      getHandler cfg e clk req w =
        (Responded 400 (errorResponse ''locationRequired'' ''VALIDATION_ERROR''), w))
   \<and> (query_location req = Some (QString l) \<and> l \<noteq> [] \<and> query_unit req = Some u
        \<and> u \<noteq> QString ''celsius'' \<and> u \<noteq> QString ''fahrenheit'' \<longrightarrow>
      getHandler cfg e clk req w =
        (Responded 400 (errorResponse ''invalidUnit'' ''VALIDATION_ERROR''), w))
   \<and> (query_location req = Some (QString l) \<and> l \<noteq> []
        \<and> (query_unit req = None \<and> un = ''celsius''
           \<or> query_unit req = Some (QString un) \<and> (un = ''celsius'' \<or> un = ''fahrenheit'')) \<longrightarrow>
      (\<forall>weatherData. fst (weatherGet cfg e clk \<lparr>req_location = l, req_unit = un\<rparr> w) =
                        Inr weatherData \<longrightarrow>
         fst (getHandler cfg e clk req w) = Responded 200 (successResponse weatherData))
      \<and> (\<forall>error. fst (weatherGet cfg e clk \<lparr>req_location = l, req_unit = un\<rparr> w) = Inl error
                   \<and> code error = Some ''WEATHER_API_ERROR'' \<longrightarrow>
           fst (getHandler cfg e clk req w) =
             Responded 503 (errorResponse (message error) ''EXTERNAL_API_ERROR''))
      \<and> (\<forall>error. fst (weatherGet cfg e clk \<lparr>req_location = l, req_unit = un\<rparr> w) = Inl error
                   \<and> code error = Some ''LOCATION_NOT_FOUND'' \<longrightarrow>
           fst (getHandler cfg e clk req w) =
             Responded 404 (errorResponse (message error) ''LOCATION_NOT_FOUND''))
      \<and> snd (getHandler cfg e clk req w) =
          snd (weatherGet cfg e clk \<lparr>req_location = l, req_unit = un\<rparr> w))"
proof -
  have A: "getHandler cfg e clk req w =
        (Responded 400 (errorResponse ''locationRequired'' ''VALIDATION_ERROR''), w)"
    if "(\<forall>l. query_location req \<noteq> Some (QString l)) \<or> query_location req = Some (QString [])"
    using that
    by (auto simp: getHandler_def Let_def split: option.splits query_value.splits)
  have B: "getHandler cfg e clk req w =
        (Responded 400 (errorResponse ''invalidUnit'' ''VALIDATION_ERROR''), w)"
    if "query_location req = Some (QString l) \<and> l \<noteq> [] \<and> query_unit req = Some u
        \<and> u \<noteq> QString ''celsius'' \<and> u \<noteq> QString ''fahrenheit''"
    using that by (simp add: getHandler_def Let_def)
  have C: "(\<forall>weatherData. fst (weatherGet cfg e clk \<lparr>req_location = l, req_unit = un\<rparr> w) =
                        Inr weatherData \<longrightarrow>
         fst (getHandler cfg e clk req w) = Responded 200 (successResponse weatherData))
      \<and> (\<forall>error. fst (weatherGet cfg e clk \<lparr>req_location = l, req_unit = un\<rparr> w) = Inl error
                   \<and> code error = Some ''WEATHER_API_ERROR'' \<longrightarrow>
           fst (getHandler cfg e clk req w) =
             Responded 503 (errorResponse (message error) ''EXTERNAL_API_ERROR''))
      \<and> (\<forall>error. fst (weatherGet cfg e clk \<lparr>req_location = l, req_unit = un\<rparr> w) = Inl error
                   \<and> code error = Some ''LOCATION_NOT_FOUND'' \<longrightarrow>
           fst (getHandler cfg e clk req w) =
             Responded 404 (errorResponse (message error) ''LOCATION_NOT_FOUND''))
      \<and> snd (getHandler cfg e clk req w) =
          snd (weatherGet cfg e clk \<lparr>req_location = l, req_unit = un\<rparr> w)"
    if h: "query_location req = Some (QString l) \<and> l \<noteq> []
        \<and> (query_unit req = None \<and> un = ''celsius''
           \<or> query_unit req = Some (QString un) \<and> (un = ''celsius'' \<or> un = ''fahrenheit''))"
  proof -
    from h have eq: "getHandler cfg e clk req w =
      (case weatherGet cfg e clk \<lparr>req_location = l, req_unit = un\<rparr> w of
         (Inr weatherData, w') \<Rightarrow> (Responded 200 (successResponse weatherData), w')
       | (Inl error, w') \<Rightarrow>
           if code error = Some ''WEATHER_API_ERROR'' then
             (Responded 503 (errorResponse (message error) ''EXTERNAL_API_ERROR''), w')
           else if code error = Some ''LOCATION_NOT_FOUND'' then
             (Responded 404 (errorResponse (message error) ''LOCATION_NOT_FOUND''), w')
           else (Next error, w'))"
      by (auto simp: getHandler_def Let_def)
    show ?thesis
      unfolding eq
      by (cases "weatherGet cfg e clk \<lparr>req_location = l, req_unit = un\<rparr> w")
         (auto split: sum.splits)
  qed
  from A B C show ?thesis by blast
qed

lemma demo_status_400:
  "fst (attempt demo_config (env_status 400) clk lisbon w) =
     Inl (new_Error ''locationNotFound'' ''LOCATION_NOT_FOUND'')"
  by (simp add: attempt_def fetch_fst fetch_try_def demo_config_def env_status_def lisbon_def
        Let_def ok_def truthy_def new_Error_def)

theorem getHandler_responses_witness:
  "getHandler demo_config env_down (instant 5) \<lparr>query_location = None, query_unit = None\<rparr>
       (initial_world demo_config) =
     (Responded 400 (errorResponse ''locationRequired'' ''VALIDATION_ERROR''),
      initial_world demo_config)
   \<and> getHandler demo_config env_down (instant 5)
       \<lparr>query_location = Some (QString ''Lisbon''), query_unit = Some (QString ''kelvin'')\<rparr>
       (initial_world demo_config) =
     (Responded 400 (errorResponse ''invalidUnit'' ''VALIDATION_ERROR''),
      initial_world demo_config)
   \<and> fst (getHandler demo_config (env_up (demo_payload (2134 / 100) (704 / 10))) (instant 5)
       \<lparr>query_location = Some (QString ''Lisbon''), query_unit = None\<rparr>
       (initial_world demo_config)) =
     Responded 200 (successResponse
       \<lparr>WeatherResponse.temperature = 213 / 10, unit = degree @ ''C'',
        location = ''Lisbon, Lisboa'', timestamp = ''2024-05-01T12:00:00.000Z'',
        status = ''online''\<rparr>)
   \<and> fst (getHandler demo_config env_down (instant 5)
       \<lparr>query_location = Some (QString ''Lisbon''), query_unit = Some (QString ''celsius'')\<rparr>
       (initial_world demo_config)) =
     Responded 503 (errorResponse ''weatherApiRequestFailed'' ''EXTERNAL_API_ERROR'')
   \<and> fst (getHandler demo_config (env_status 400) (instant 5)
       \<lparr>query_location = Some (QString ''Lisbon''), query_unit = None\<rparr>
       (initial_world demo_config)) =
     Responded 404 (errorResponse ''locationNotFound'' ''LOCATION_NOT_FOUND'')"
proof -
  let ?w0 = "initial_world demo_config"
  let ?up = "env_up (demo_payload (2134 / 100) (704 / 10))"
  let ?r = "\<lparr>WeatherResponse.temperature = 213 / 10, unit = degree @ ''C'',
          location = ''Lisbon, Lisboa'', timestamp = ''2024-05-01T12:00:00.000Z'',
          status = ''online''\<rparr>"
  let ?q1 = "\<lparr>query_location = None, query_unit = None\<rparr>"
  let ?q2 = "\<lparr>query_location = Some (QString ''Lisbon''),
              query_unit = Some (QString ''kelvin'')\<rparr>"
  let ?q3 = "\<lparr>query_location = Some (QString ''Lisbon''), query_unit = None\<rparr>"
  let ?q4 = "\<lparr>query_location = Some (QString ''Lisbon''),
              query_unit = Some (QString ''celsius'')\<rparr>"
  have p: "\<lparr>req_location = ''Lisbon'', req_unit = ''celsius''\<rparr> = lisbon"
    by (simp add: lisbon_def)
  have n: "lookup (instant 5) lisbon ?w0 = None"
    by (rule demo_lookup_initial)
  have g1: "fst (weatherGet demo_config ?up (instant 5)
              \<lparr>req_location = ''Lisbon'', req_unit = ''celsius''\<rparr> ?w0) = Inr ?r"
    unfolding p weatherGet_absent [OF n] attempt_def
    using demo_up_celsius by (simp add: lisbon_def)
  have g2: "fst (weatherGet demo_config env_down (instant 5)
              \<lparr>req_location = ''Lisbon'', req_unit = ''celsius''\<rparr> ?w0) =
            Inl (new_Error ''weatherApiRequestFailed'' ''WEATHER_API_ERROR'')"
    unfolding p weatherGet_absent [OF n] by (rule demo_down)
  have g3: "fst (weatherGet demo_config (env_status 400) (instant 5)
              \<lparr>req_location = ''Lisbon'', req_unit = ''celsius''\<rparr> ?w0) =
            Inl (new_Error ''locationNotFound'' ''LOCATION_NOT_FOUND'')"
    unfolding p weatherGet_absent [OF n] by (rule demo_status_400)
  have c: "code (new_Error ''weatherApiRequestFailed'' ''WEATHER_API_ERROR'') =
             Some ''WEATHER_API_ERROR''"
    "code (new_Error ''locationNotFound'' ''LOCATION_NOT_FOUND'') = Some ''LOCATION_NOT_FOUND''"
    "message (new_Error ''weatherApiRequestFailed'' ''WEATHER_API_ERROR'') =
       ''weatherApiRequestFailed''"
    "message (new_Error ''locationNotFound'' ''LOCATION_NOT_FOUND'') = ''locationNotFound''"
    by (simp_all add: new_Error_def)
  have r1: "getHandler demo_config env_down (instant 5) ?q1 ?w0 =
     (Responded 400 (errorResponse ''locationRequired'' ''VALIDATION_ERROR''), ?w0)"
    using getHandler_responses
      [where req = ?q1 and cfg = demo_config and e = env_down and clk = "instant 5"
         and w = ?w0 and l = "''Lisbon''" and u = "QString ''kelvin''" and un = "''celsius''"]
    by simp
  have r2: "getHandler demo_config env_down (instant 5) ?q2 ?w0 =
     (Responded 400 (errorResponse ''invalidUnit'' ''VALIDATION_ERROR''), ?w0)"
    using getHandler_responses
      [where req = ?q2 and cfg = demo_config and e = env_down and clk = "instant 5"
         and w = ?w0 and l = "''Lisbon''" and u = "QString ''kelvin''" and un = "''celsius''"]
    by simp
  have r3: "fst (getHandler demo_config ?up (instant 5) ?q3 ?w0) =
     Responded 200 (successResponse ?r)"
    using getHandler_responses
      [where req = ?q3 and cfg = demo_config and e = ?up and clk = "instant 5"
         and w = ?w0 and l = "''Lisbon''" and u = "QString ''kelvin''" and un = "''celsius''"]
      g1
    by simp
  have r4: "fst (getHandler demo_config env_down (instant 5) ?q4 ?w0) =
     Responded 503 (errorResponse ''weatherApiRequestFailed'' ''EXTERNAL_API_ERROR'')"
    using getHandler_responses
      [where req = ?q4 and cfg = demo_config and e = env_down and clk = "instant 5"
         and w = ?w0 and l = "''Lisbon''" and u = "QString ''kelvin''" and un = "''celsius''"]
      g2 c
    by simp
  have r5: "fst (getHandler demo_config (env_status 400) (instant 5) ?q3 ?w0) =
     Responded 404 (errorResponse ''locationNotFound'' ''LOCATION_NOT_FOUND'')"
    using getHandler_responses
      [where req = ?q3 and cfg = demo_config and e = "env_status 400" and clk = "instant 5"
         and w = ?w0 and l = "''Lisbon''" and u = "QString ''kelvin''" and un = "''celsius''"]
      g3 c
    by simp
  from r1 r2 r3 r4 r5 show ?thesis by blast
qed

section \<open>The age of an observed reading\<close>

lemma fetch_success_status:
  assumes "fst (fetchWeatherFromAPI cfg e clk l u w) = Inr r"
  shows "status r = ''online''"
proof -
  have hp: "status r' = ''online''" if "fst (handle_payload e clk l u data w') = Inr r'"
    for data w' r'
    using that by (auto simp: handle_payload_result split: option.splits if_splits)
  have "status r' = ''online''" if "fst (fetch_try e clk apiUrl apiKey l u w) = Inr r'"
    for apiUrl apiKey r'
    using that hp
    by (auto simp: fetch_try_def Let_def
             split: option.splits fetch_result.splits if_splits sum.splits)
  with assms show ?thesis
    by (auto simp: fetch_fst split: option.splits if_splits sum.splits)
qed

lemma weatherGet_cache_cases:
  "weatherCache (snd (weatherGet cfg e clk params w)) = weatherCache (after_lookup clk params w)
   \<or> (\<exists>r. weatherCache (snd (weatherGet cfg e clk params w)) =
         SimpleCache_set (t_set clk) (cacheKey_of (req_location params) (req_unit params))
           (to_cache r (t_cacheTime clk)) (weatherCache (after_lookup clk params w)))"
proof (cases "fresh_hit clk params w")
  case True
  then obtain cached where "lookup clk params w = Some cached"
    "t_now clk - cacheTime cached < 15 * 60 * 1000"
    by (auto simp: fresh_hit_def split: option.splits)
  then show ?thesis
    by (simp add: weatherGet_fresh lookup_Some_unchanged)
next
  case False
  then have s: "snd (weatherGet cfg e clk params w) = snd (attempt cfg e clk params w)"
    by (simp add: weatherGet_not_fresh)
  from fetch_cases [of cfg e clk "req_location params" "req_unit params"
      "after_lookup clk params w"]
  show ?thesis
    unfolding s attempt_def by auto
qed

lemma cache_inv_after_lookup:
  "cache_inv cfg w \<Longrightarrow> cache_inv cfg (after_lookup clk params w)"
  by (auto simp: cache_inv_def after_lookup_def SimpleCache_get_def
           split: option.splits if_splits)

lemma cache_inv_weatherGet:
  assumes "cache_inv cfg w" and "t_cacheTime clk = t_set clk"
  shows "cache_inv cfg (snd (weatherGet cfg e clk params w))"
proof -
  from assms(1) have a: "cache_inv cfg (after_lookup clk params w)"
    by (rule cache_inv_after_lookup)
  from weatherGet_cache_cases [of cfg e clk params w] show ?thesis
  proof
    assume "weatherCache (snd (weatherGet cfg e clk params w)) =
              weatherCache (after_lookup clk params w)"
    with a show ?thesis by (simp add: cache_inv_def)
  next
    assume "\<exists>r. weatherCache (snd (weatherGet cfg e clk params w)) =
         SimpleCache_set (t_set clk) (cacheKey_of (req_location params) (req_unit params))
           (to_cache r (t_cacheTime clk)) (weatherCache (after_lookup clk params w))"
    then obtain r where "weatherCache (snd (weatherGet cfg e clk params w)) =
         SimpleCache_set (t_set clk) (cacheKey_of (req_location params) (req_unit params))
           (to_cache r (t_cacheTime clk)) (weatherCache (after_lookup clk params w))" ..
    with a assms(2) show ?thesis
      by (auto simp: cache_inv_def SimpleCache_set_def to_cache_def)
  qed
qed

lemma cache_inv_cleanup:
  "cache_inv cfg w \<Longrightarrow> cache_inv cfg (w\<lparr>weatherCache := cleanup now (weatherCache w)\<rparr>)"
  by (auto simp: cache_inv_def cleanup_def split: option.splits if_splits)

lemma reachable_cache_inv: "reachable cfg w \<Longrightarrow> cache_inv cfg w"
proof (induction rule: reachable.induct)
  case start
  show ?case by (simp add: cache_inv_def initial_world_def SimpleCache_new_def)
next
  case (retrieval w clk e params)
  then show ?case by (simp add: cache_inv_weatherGet)
next
  case (sweep w now)
  then show ?case by (simp add: cache_inv_cleanup)
qed

lemma lookup_age:
  assumes "cache_inv cfg w" and "lookup clk params w = Some cached"
  shows "t_get clk - cacheTime cached \<le> cache_ttl cfg * 1000"
  using assms
  by (auto simp: cache_inv_def lookup_def SimpleCache_get_def split: option.splits if_splits)

text \<open>
  C10, amended. In a world reached by retrievals that read the clock once for
  \<open>cacheTime\<close> and expiry, a retrieval that reads the clock once for the lookup and for
  \<open>now\<close> observes only readings whose age is at most the configured TTL (in
  milliseconds); and when that TTL is at most 60 minutes, no reading it returns has status
  \<open>outdated\<close>.
\<close>

theorem weatherGet_age_within_ttl:
  assumes "reachable cfg w" and "t_get clk = t_now clk"
  shows "(\<forall>cached. lookup clk params w = Some cached \<longrightarrow>
            t_now clk - cacheTime cached \<le> cache_ttl cfg * 1000)
       \<and> (cache_ttl cfg * 1000 \<le> 60 * 60 * 1000 \<longrightarrow>
            (\<forall>r. fst (weatherGet cfg e clk params w) = Inr r \<longrightarrow> status r \<noteq> ''outdated''))"
proof (intro conjI allI impI)
  fix cached
  assume "lookup clk params w = Some cached"
  from lookup_age [OF reachable_cache_inv [OF assms(1)] this] assms(2)
  show "t_now clk - cacheTime cached \<le> cache_ttl cfg * 1000"
    by simp
next
  fix r
  assume small: "cache_ttl cfg * 1000 \<le> 60 * 60 * 1000"
    and res: "fst (weatherGet cfg e clk params w) = Inr r"
  show "status r \<noteq> ''outdated''"
  proof (cases "lookup clk params w")
    case None
    with res have "fst (attempt cfg e clk params w) = Inr r"
      by (simp add: weatherGet_absent)
    then show ?thesis
      unfolding attempt_def by (simp add: fetch_success_status)
  next
    case (Some cached)
    from lookup_age [OF reachable_cache_inv [OF assms(1)] Some] assms(2) small
    have age: "t_now clk - cacheTime cached \<le> 60 * 60 * 1000"
      by simp
    show ?thesis
    proof (cases "t_now clk - cacheTime cached < 15 * 60 * 1000")
      case True
      with Some res show ?thesis
        by (auto simp: weatherGet_fresh from_cache_def)
    next
      case False
      then have "15 * 60 * 1000 \<le> t_now clk - cacheTime cached" by simp
      from weatherGet_aging [OF Some this age, of cfg e] res
      show ?thesis
        by (cases "fst (attempt cfg e clk params w)")
           (auto simp: from_cache_def attempt_def fetch_success_status)
    qed
  qed
qed

lemma lookup_initial: "lookup clk params (initial_world cfg) = None"
  by (simp add: lookup_def initial_world_def SimpleCache_new_def SimpleCache_get_def)

lemma after_lookup_initial: "after_lookup clk params (initial_world cfg) = initial_world cfg"
  by (simp add: after_lookup_def initial_world_def SimpleCache_new_def SimpleCache_get_def)

lemma hour_up_celsius:
  "fst (fetchWeatherFromAPI hour_config (env_up (demo_payload (2134 / 100) (704 / 10))) clk
          ''Lisbon'' ''celsius'' w) =
     Inr \<lparr>WeatherResponse.temperature = 213 / 10, unit = degree @ ''C'',
          location = ''Lisbon, Lisboa'', timestamp = ''2024-05-01T12:00:00.000Z'',
          status = ''online''\<rparr>"
proof -
  let ?data = "demo_payload (2134 / 100) (704 / 10)"
  have f: "weather_apiKey hour_config = Some ''secret''" "''secret'' \<noteq> []"
    "encodeURIComponent (env_up ?data) ''Lisbon'' = Some ''Lisbon''"
    "fetch (env_up ?data) (request_url (weather_apiUrl hour_config) ''secret'' ''Lisbon'') =
       Resolves (Response 200 (Inr ?data))"
    "ok (Response 200 (Inr ?data))" "json (Response 200 (Inr ?data)) = Inr ?data"
    by (simp_all add: hour_config_def env_up_def ok_def)
  have ts: "toISOString (env_up ?data) (last_updated (current ?data)) =
              Some ''2024-05-01T12:00:00.000Z''"
    by (simp add: env_up_def)
  have t: "temp_c (current ?data) = 2134 / 100"
    and l: "name (ExternalWeatherAPIResponse.location ?data) = ''Lisbon''"
      "region (ExternalWeatherAPIResponse.location ?data) = ''Lisboa''"
    by (simp_all add: demo_payload_def)
  show ?thesis
    unfolding fetch_with_payload [OF f] handle_payload_result ts t l
    by (simp add: Math_round_demo)
qed

lemma hour_down:
  "fst (attempt hour_config env_down clk lisbon w) =
     Inl (new_Error ''weatherApiRequestFailed'' ''WEATHER_API_ERROR'')"
  by (simp add: attempt_def fetch_fst fetch_try_def hour_config_def env_down_def lisbon_def
        Let_def truthy_def)

lemma hour_first_retrieval:
  "weatherCache (snd (weatherGet hour_config (env_up (demo_payload (2134 / 100) (704 / 10)))
       clk lisbon (initial_world hour_config))) =
     SimpleCache_set (t_set clk) ''weather_Lisbon_celsius''
       (demo_reading\<lparr>cacheTime := t_cacheTime clk\<rparr>) (SimpleCache_new 3600)"
proof -
  let ?up = "env_up (demo_payload (2134 / 100) (704 / 10))"
  let ?r = "\<lparr>WeatherResponse.temperature = 213 / 10, unit = degree @ ''C'',
          location = ''Lisbon, Lisboa'', timestamp = ''2024-05-01T12:00:00.000Z'',
          status = ''online''\<rparr>"
  let ?w0 = "initial_world hour_config"
  have g: "weatherGet hour_config ?up clk lisbon ?w0 =
             fetchWeatherFromAPI hour_config ?up clk ''Lisbon'' ''celsius'' ?w0"
    unfolding weatherGet_absent [OF lookup_initial] attempt_def after_lookup_initial
    by (simp add: lisbon_def)
  have k: "cacheKey_of ''Lisbon'' ''celsius'' = ''weather_Lisbon_celsius''"
    by (simp add: cacheKey_of_def)
  have v: "to_cache ?r (t_cacheTime clk) = demo_reading\<lparr>cacheTime := t_cacheTime clk\<rparr>"
    by (simp add: to_cache_def demo_reading_def)
  have c0: "weatherCache ?w0 = SimpleCache_new 3600"
    by (simp add: initial_world_def hour_config_def)
  have "fst (fetchWeatherFromAPI hour_config ?up clk ''Lisbon'' ''celsius'' ?w0) = Inr ?r"
    by (rule hour_up_celsius)
  from fetch_success_cache [OF this]
  show ?thesis
    unfolding g k v c0 .
qed

lemma hour_lookup:
  assumes "weatherCache w =
     SimpleCache_set s ''weather_Lisbon_celsius'' (demo_reading\<lparr>cacheTime := c\<rparr>)
       (SimpleCache_new 3600)"
    and "t_get clk \<le> s + 3600000"
  shows "lookup clk lisbon w = Some (demo_reading\<lparr>cacheTime := c\<rparr>)"
  using assms
  by (simp add: lookup_def SimpleCache_get_def SimpleCache_set_def SimpleCache_new_def
        cacheKey_of_def lisbon_def)

theorem weatherGet_age_within_ttl_witness:
  "reachable hour_config
     (snd (weatherGet hour_config (env_up (demo_payload (2134 / 100) (704 / 10))) (instant 0)
        lisbon (initial_world hour_config)))
   \<and> t_get (instant 3600000) = t_now (instant 3600000)
   \<and> lookup (instant 3600000) lisbon
       (snd (weatherGet hour_config (env_up (demo_payload (2134 / 100) (704 / 10))) (instant 0)
          lisbon (initial_world hour_config))) = Some demo_reading
   \<and> t_now (instant 3600000) - cacheTime demo_reading \<le> cache_ttl hour_config * 1000
   \<and> cache_ttl hour_config * 1000 \<le> 60 * 60 * 1000
   \<and> fst (weatherGet hour_config env_down (instant 3600000) lisbon
       (snd (weatherGet hour_config (env_up (demo_payload (2134 / 100) (704 / 10))) (instant 0)
          lisbon (initial_world hour_config)))) = Inr (from_cache demo_reading ''offline'')
   \<and> status (from_cache demo_reading ''offline'') \<noteq> ''outdated''"
proof -
  let ?up = "env_up (demo_payload (2134 / 100) (704 / 10))"
  let ?w1 = "snd (weatherGet hour_config ?up (instant 0) lisbon (initial_world hour_config))"
  have sync0: "t_cacheTime (instant 0) = t_set (instant 0)"
    by (simp add: instant_def)
  have reach: "reachable hour_config ?w1"
    by (rule reachable.retrieval [OF reachable.start sync0])
  have sync: "t_get (instant 3600000) = t_now (instant 3600000)"
    by (simp add: instant_def)
  have small: "cache_ttl hour_config * 1000 \<le> 60 * 60 * 1000"
    by (simp add: hour_config_def)
  have c: "weatherCache ?w1 =
     SimpleCache_set 0 ''weather_Lisbon_celsius'' (demo_reading\<lparr>cacheTime := 0\<rparr>)
       (SimpleCache_new 3600)"
    using hour_first_retrieval [of "instant 0"] by (simp add: instant_def)
  have d: "demo_reading\<lparr>cacheTime := 0\<rparr> = demo_reading"
    by (simp add: demo_reading_def)
  have s: "lookup (instant 3600000) lisbon ?w1 = Some demo_reading"
    using hour_lookup [OF c, of "instant 3600000"] by (simp add: instant_def d)
  have age: "15 * 60 * 1000 \<le> t_now (instant 3600000) - cacheTime demo_reading"
    "t_now (instant 3600000) - cacheTime demo_reading \<le> 60 * 60 * 1000"
    by (simp_all add: instant_def demo_reading_def)
  have res: "fst (weatherGet hour_config env_down (instant 3600000) lisbon ?w1) =
               Inr (from_cache demo_reading ''offline'')"
    using weatherGet_aging [OF s age, of hour_config env_down] hour_down
    by simp
  from weatherGet_age_within_ttl [OF reach sync, of lisbon env_down] s small res
  have "t_now (instant 3600000) - cacheTime demo_reading \<le> cache_ttl hour_config * 1000"
    and "status (from_cache demo_reading ''offline'') \<noteq> ''outdated''"
    by blast+
  with reach sync s small res show ?thesis by blast
qed

text \<open>
  C10, as stated, fails. The TTL is 60 minutes. A first retrieval reads the clock as 0 for
  \<open>cacheTime\<close> (line 186) and as 1 inside \<open>set\<close> (line 249), so the entry expires at
  3600001. A second retrieval at 3600001 still gets the entry from \<open>get\<close>, its age
  3600001 exceeds the TTL, the stale branch is taken, and with the upstream down the
  reading comes back with status \<open>outdated\<close>.
\<close>

theorem weatherGet_outdated_within_hour_ttl:
  "cache_ttl hour_config * 1000 \<le> 60 * 60 * 1000
   \<and> lookup (instant 3600001) lisbon
       (snd (weatherGet hour_config (env_up (demo_payload (2134 / 100) (704 / 10)))
          \<lparr>t_get = 0, t_now = 0, t_cacheTime = 0, t_set = 1\<rparr>
          lisbon (initial_world hour_config))) = Some demo_reading
   \<and> t_now (instant 3600001) - cacheTime demo_reading > cache_ttl hour_config * 1000
   \<and> fst (weatherGet hour_config env_down (instant 3600001) lisbon
       (snd (weatherGet hour_config (env_up (demo_payload (2134 / 100) (704 / 10)))
          \<lparr>t_get = 0, t_now = 0, t_cacheTime = 0, t_set = 1\<rparr>
          lisbon (initial_world hour_config)))) =
     Inr \<lparr>WeatherResponse.temperature = 213 / 10, unit = degree @ ''C'',
          location = ''Lisbon, Lisboa'', timestamp = ''2024-05-01T12:00:00.000Z'',
          status = ''outdated''\<rparr>"
proof -
  let ?up = "env_up (demo_payload (2134 / 100) (704 / 10))"
  let ?tick = "\<lparr>t_get = 0, t_now = 0, t_cacheTime = 0, t_set = 1\<rparr>"
  let ?w1 = "snd (weatherGet hour_config ?up ?tick lisbon (initial_world hour_config))"
  have small: "cache_ttl hour_config * 1000 \<le> 60 * 60 * 1000"
    by (simp add: hour_config_def)
  have c: "weatherCache ?w1 =
     SimpleCache_set 1 ''weather_Lisbon_celsius'' (demo_reading\<lparr>cacheTime := 0\<rparr>)
       (SimpleCache_new 3600)"
    using hour_first_retrieval [of ?tick] by simp
  have d: "demo_reading\<lparr>cacheTime := 0\<rparr> = demo_reading"
    by (simp add: demo_reading_def)
  have s: "lookup (instant 3600001) lisbon ?w1 = Some demo_reading"
    using hour_lookup [OF c, of "instant 3600001"] by (simp add: instant_def d)
  have age: "t_now (instant 3600001) - cacheTime demo_reading > 60 * 60 * 1000"
    by (simp add: instant_def demo_reading_def)
  have over: "t_now (instant 3600001) - cacheTime demo_reading > cache_ttl hour_config * 1000"
    by (simp add: instant_def demo_reading_def hour_config_def)
  have res: "fst (weatherGet hour_config env_down (instant 3600001) lisbon ?w1) =
               Inr (from_cache demo_reading ''outdated'')"
    using weatherGet_stale [OF s age, of hour_config env_down] hour_down
    by simp
  from small s over res show ?thesis
    by (simp add: from_cache_def demo_reading_def)
qed

end
